theory Spec2Isabelle
  imports Complex_Main
begin

section \<open>JavaScript values\<close>

text \<open>
  The quota engine (\<^verbatim>\<open>packages/web/server/lib/quota-providers.js\<close>) is untyped JavaScript
  working on parsed JSON. Its values are embedded as a datatype. A number is a finite real
  or one of the three special doubles; \<^verbatim>\<open>-0\<close> is identified with \<^verbatim>\<open>0\<close> (both are falsy,
  and the code never divides by a falsy number). An object is the list of its own properties,
  as \<^verbatim>\<open>JSON.parse\<close> makes them: every value here comes from a JSON document, so no
  property holds a function.
\<close>

datatype jsnum = Fin real | PosInf | NegInf | NaN

datatype jsval =
    JUndefined
  | JNull
  | JBool bool
  | JNum jsnum
  | JStr string
  | JArr "jsval list"
  | JObj "(string \<times> jsval) list"

text \<open>An exception: an \<^verbatim>\<open>Error\<close> instance with its message, or any other thrown value.\<close>

datatype js_exn = JsError string | JsThrown jsval

fun truthy :: "jsval \<Rightarrow> bool" where
  "truthy JUndefined = False"
| "truthy JNull = False"
| "truthy (JBool b) = b"
| "truthy (JNum n) = (n \<noteq> NaN \<and> n \<noteq> Fin 0)"
| "truthy (JStr s) = (s \<noteq> [])"
| "truthy (JArr xs) = True"
| "truthy (JObj kvs) = True"

fun is_nullish :: "jsval \<Rightarrow> bool" where
  "is_nullish JUndefined = True"
| "is_nullish JNull = True"
| "is_nullish v = False"

text \<open>\<^verbatim>\<open>a ?? b\<close> and \<^verbatim>\<open>a || b\<close>.\<close>

definition nullish_or :: "jsval \<Rightarrow> jsval \<Rightarrow> jsval" where
  "nullish_or a b = (if is_nullish a then b else a)"

definition truthy_or :: "jsval \<Rightarrow> jsval \<Rightarrow> jsval" where
  "truthy_or a b = (if truthy a then a else b)"

text \<open>
  Property read \<^verbatim>\<open>v.k\<close> at a fixed name, on a value that is not null or undefined: own
  properties of an object; everything else (primitives, arrays read at a name) gives
  undefined. None of the fixed names the code reads is a member of a prototype. The one read
  at a computed key, the unit table of the z.ai fetcher, is embedded there with the inherited
  members.
\<close>

fun get_prop :: "jsval \<Rightarrow> string \<Rightarrow> jsval" where
  "get_prop (JObj kvs) k = (case map_of kvs k of Some v \<Rightarrow> v | None \<Rightarrow> JUndefined)"
| "get_prop v k = JUndefined"

text \<open>Optional chaining \<^verbatim>\<open>v?.k\<close>.\<close>

definition opt_prop :: "jsval \<Rightarrow> string \<Rightarrow> jsval" where
  "opt_prop v k = (if is_nullish v then JUndefined else get_prop v k)"

fun is_object_type :: "jsval \<Rightarrow> bool" where
  "is_object_type JNull = True"
| "is_object_type (JArr xs) = True"
| "is_object_type (JObj kvs) = True"
| "is_object_type v = False"

subsection \<open>Numbers\<close>

text \<open>
  The result of an arithmetic operation on finite numbers is its exact value rounded to
  binary64: to the nearest double, a tie going to the even significand; the spacing of
  doubles is \<^verbatim>\<open>2^(e-52)\<close> inside \<^verbatim>\<open>[2^e, 2^(e+1))\<close> and \<^verbatim>\<open>2^-1074\<close> below
  \<^verbatim>\<open>2^-1022\<close>; a value that rounds to \<^verbatim>\<open>2^1024\<close> or beyond overflows to an infinity.
\<close>

definition round_half_even :: "real \<Rightarrow> int" where
  "round_half_even x =
     (let f = \<lfloor>x\<rfloor>; d = x - of_int f
      in if d < 1 / 2 then f else if 1 / 2 < d then f + 1 else if even f then f else f + 1)"

definition binary64 :: "real \<Rightarrow> jsnum" where
  "binary64 x =
     (if x = 0 then Fin 0
      else (let e = max \<lfloor>log 2 \<bar>x\<bar>\<rfloor> (- 1022);
                q = 2 powi (e - 52);
                y = of_int (round_half_even (\<bar>x\<bar> / q)) * q
            in if 2 ^ 1024 \<le> y then (if x < 0 then NegInf else PosInf)
               else Fin (if x < 0 then - y else y)))"

fun js_lt :: "jsnum \<Rightarrow> jsnum \<Rightarrow> bool" where
  "js_lt NaN b = False"
| "js_lt a NaN = False"
| "js_lt (Fin x) (Fin y) = (x < y)"
| "js_lt (Fin x) PosInf = True"
| "js_lt (Fin x) NegInf = False"
| "js_lt PosInf b = False"
| "js_lt NegInf NegInf = False"
| "js_lt NegInf b = True"

fun js_le :: "jsnum \<Rightarrow> jsnum \<Rightarrow> bool" where
  "js_le NaN b = False"
| "js_le a NaN = False"
| "js_le a b = (\<not> js_lt b a)"

fun js_neg :: "jsnum \<Rightarrow> jsnum" where
  "js_neg (Fin x) = Fin (- x)"
| "js_neg PosInf = NegInf"
| "js_neg NegInf = PosInf"
| "js_neg NaN = NaN"

fun js_add :: "jsnum \<Rightarrow> jsnum \<Rightarrow> jsnum" where
  "js_add NaN b = NaN"
| "js_add a NaN = NaN"
| "js_add (Fin x) (Fin y) = binary64 (x + y)"
| "js_add (Fin x) b = b"
| "js_add a (Fin y) = a"
| "js_add PosInf PosInf = PosInf"
| "js_add NegInf NegInf = NegInf"
| "js_add PosInf NegInf = NaN"
| "js_add NegInf PosInf = NaN"

definition js_sub :: "jsnum \<Rightarrow> jsnum \<Rightarrow> jsnum" where
  "js_sub a b = js_add a (js_neg b)"

text \<open>The sign of a number that is not NaN: -1, 0 or 1.\<close>

fun js_sign :: "jsnum \<Rightarrow> int" where
  "js_sign (Fin x) = (if x < 0 then - 1 else if x = 0 then 0 else 1)"
| "js_sign PosInf = 1"
| "js_sign NegInf = - 1"
| "js_sign NaN = 0"

definition signed_inf :: "int \<Rightarrow> jsnum" where
  "signed_inf s = (if s = 0 then NaN else if s < 0 then NegInf else PosInf)"

fun js_mul :: "jsnum \<Rightarrow> jsnum \<Rightarrow> jsnum" where
  "js_mul NaN b = NaN"
| "js_mul a NaN = NaN"
| "js_mul (Fin x) (Fin y) = binary64 (x * y)"
| "js_mul a b = signed_inf (js_sign a * js_sign b)"

fun js_div :: "jsnum \<Rightarrow> jsnum \<Rightarrow> jsnum" where
  "js_div NaN b = NaN"
| "js_div a NaN = NaN"
| "js_div (Fin x) (Fin y) = (if y = 0 then signed_inf (js_sign (Fin x)) else binary64 (x / y))"
| "js_div (Fin x) b = Fin 0"
| "js_div a (Fin y) = signed_inf (js_sign a * (if y < 0 then - 1 else 1))"
| "js_div a b = NaN"

text \<open>
  \<^verbatim>\<open>Math.max\<close>, \<^verbatim>\<open>Math.min\<close>, \<^verbatim>\<open>Math.floor\<close>, \<^verbatim>\<open>Math.round\<close> (the nearest integer,
  a tie going up), and truncation towards zero. Their results on doubles are doubles.
\<close>

fun js_max :: "jsnum \<Rightarrow> jsnum \<Rightarrow> jsnum" where
  "js_max NaN b = NaN"
| "js_max a NaN = NaN"
| "js_max a b = (if js_lt a b then b else a)"

fun js_min :: "jsnum \<Rightarrow> jsnum \<Rightarrow> jsnum" where
  "js_min NaN b = NaN"
| "js_min a NaN = NaN"
| "js_min a b = (if js_lt b a then b else a)"

fun js_floor :: "jsnum \<Rightarrow> jsnum" where
  "js_floor (Fin x) = Fin (of_int \<lfloor>x\<rfloor>)"
| "js_floor n = n"

fun js_round :: "jsnum \<Rightarrow> jsnum" where
  "js_round (Fin x) = Fin (of_int \<lfloor>x + 1 / 2\<rfloor>)"
| "js_round n = n"

definition js_trunc :: "real \<Rightarrow> int" where
  "js_trunc x = (if 0 \<le> x then \<lfloor>x\<rfloor> else \<lceil>x\<rceil>)"

text \<open>The remainder \<^verbatim>\<open>a % b\<close>, with the sign of the dividend; it is exact.\<close>

fun js_mod :: "jsnum \<Rightarrow> jsnum \<Rightarrow> jsnum" where
  "js_mod (Fin x) (Fin y) = (if y = 0 then NaN else Fin (x - y * of_int (js_trunc (x / y))))"
| "js_mod (Fin x) PosInf = Fin x"
| "js_mod (Fin x) NegInf = Fin x"
| "js_mod a b = NaN"

fun is_finite :: "jsnum \<Rightarrow> bool" where
  "is_finite (Fin x) = True"
| "is_finite n = False"

subsection \<open>Strings\<close>

text \<open>
  A string is the sequence of the bytes of its UTF-8 encoding. The separators the code
  splits and tests on (\<^verbatim>\<open>|\<close>, \<^verbatim>\<open>/\<close>) are ASCII, so they never fall inside the encoding
  of another character.
\<close>

definition digit_char :: "nat \<Rightarrow> char" where
  "digit_char d = ''0123456789'' ! d"

function decimal :: "nat \<Rightarrow> string" where
  "decimal n = (if n < 10 then [digit_char n] else decimal (n div 10) @ [digit_char (n mod 10)])"
  by pat_completeness auto
termination
  by (relation "measure id") auto

declare decimal.simps [simp del]

text \<open>
  The white space and line terminators that \<^verbatim>\<open>String.prototype.trim\<close> strips, by the
  length of their encoding: tab, line feed, vertical tab, form feed, carriage return and
  space; U+00A0; U+1680, U+2000 to U+200A, U+2028, U+2029, U+202F, U+205F, U+3000 and U+FEFF.
\<close>

definition is_space1 :: "char \<Rightarrow> bool" where
  "is_space1 a = (a \<in> set [CHR 0x09, CHR 0x0A, CHR 0x0B, CHR 0x0C, CHR 0x0D, CHR 0x20])"

definition is_space2 :: "char \<Rightarrow> char \<Rightarrow> bool" where
  "is_space2 a b = (a = CHR 0xC2 \<and> b = CHR 0xA0)"

definition is_space3 :: "char \<Rightarrow> char \<Rightarrow> char \<Rightarrow> bool" where
  "is_space3 a b c =
     ((a, b, c) \<in> set [(CHR 0xE1, CHR 0x9A, CHR 0x80),
                        (CHR 0xE2, CHR 0x80, CHR 0x80), (CHR 0xE2, CHR 0x80, CHR 0x81),
                        (CHR 0xE2, CHR 0x80, CHR 0x82), (CHR 0xE2, CHR 0x80, CHR 0x83),
                        (CHR 0xE2, CHR 0x80, CHR 0x84), (CHR 0xE2, CHR 0x80, CHR 0x85),
                        (CHR 0xE2, CHR 0x80, CHR 0x86), (CHR 0xE2, CHR 0x80, CHR 0x87),
                        (CHR 0xE2, CHR 0x80, CHR 0x88), (CHR 0xE2, CHR 0x80, CHR 0x89),
                        (CHR 0xE2, CHR 0x80, CHR 0x8A), (CHR 0xE2, CHR 0x80, CHR 0xA8),
                        (CHR 0xE2, CHR 0x80, CHR 0xA9), (CHR 0xE2, CHR 0x80, CHR 0xAF),
                        (CHR 0xE2, CHR 0x81, CHR 0x9F), (CHR 0xE3, CHR 0x80, CHR 0x80),
                        (CHR 0xEF, CHR 0xBB, CHR 0xBF)])"

text \<open>Stripping at the front of a string, and at the front of a reversed string.\<close>

fun strip_leading :: "string \<Rightarrow> string" where
  "strip_leading (a # b # c # s) =
     (if is_space1 a then strip_leading (b # c # s)
      else if is_space2 a b then strip_leading (c # s)
      else if is_space3 a b c then strip_leading s
      else a # b # c # s)"
| "strip_leading [a, b] =
     (if is_space1 a then strip_leading [b] else if is_space2 a b then [] else [a, b])"
| "strip_leading [a] = (if is_space1 a then [] else [a])"
| "strip_leading [] = []"

fun strip_leading_rev :: "string \<Rightarrow> string" where
  "strip_leading_rev (c # b # a # s) =
     (if is_space1 c then strip_leading_rev (b # a # s)
      else if is_space2 b c then strip_leading_rev (a # s)
      else if is_space3 a b c then strip_leading_rev s
      else c # b # a # s)"
| "strip_leading_rev [b, a] =
     (if is_space1 b then strip_leading_rev [a] else if is_space2 a b then [] else [b, a])"
| "strip_leading_rev [a] = (if is_space1 a then [] else [a])"
| "strip_leading_rev [] = []"

definition js_trim :: "string \<Rightarrow> string" where
  "js_trim s = rev (strip_leading_rev (rev (strip_leading s)))"

text \<open>\<^verbatim>\<open>s.split(c)\<close> for a one-character separator.\<close>

fun split_on :: "char \<Rightarrow> string \<Rightarrow> string list" where
  "split_on c [] = [[]]"
| "split_on c (x # xs) =
     (if x = c then [] # split_on c xs
      else (case split_on c xs of y # ys \<Rightarrow> (x # y) # ys | [] \<Rightarrow> [[x]]))"

definition startsWith :: "string \<Rightarrow> string \<Rightarrow> bool" where
  "startsWith s p = (take (length p) s = p)"

text \<open>\<^verbatim>\<open>xs.join(',')\<close> for strings.\<close>

fun join_comma :: "string list \<Rightarrow> string" where
  "join_comma [] = []"
| "join_comma [x] = x"
| "join_comma (x # y # ys) = x @ '','' @ join_comma (y # ys)"

text \<open>
  \<^verbatim>\<open>x.toFixed(f)\<close> for a finite number below \<^verbatim>\<open>1e21\<close> in magnitude: the sign, then
  the nearest integer to \<^verbatim>\<open>|x| * 10^f\<close> (the larger one on a tie) written in decimal
  with \<^verbatim>\<open>f\<close> fraction digits.
\<close>

definition pad_zeros :: "nat \<Rightarrow> string \<Rightarrow> string" where
  "pad_zeros w s = replicate (w - length s) (CHR ''0'') @ s"

definition toFixed_digits :: "nat \<Rightarrow> real \<Rightarrow> string" where
  "toFixed_digits f x =
     (let n = nat \<lfloor>\<bar>x\<bar> * 10 ^ f + 1 / 2\<rfloor>;
          m = pad_zeros (f + 1) (decimal n);
          k = length m - f;
          body = (if f = 0 then m else take k m @ ''.'' @ drop k m)
      in (if x < 0 then ''-'' @ body else body))"

section \<open>The world outside the engine\<close>

text \<open>
  What a call of the engine reads from outside itself is a parameter: the credential store
  returned by \<^verbatim>\<open>readAuthFile\<close> (a mapping from alias to entry), the JSON files of
  \<^verbatim>\<open>readJsonFile\<close> (null when the file is missing, empty, unreadable or malformed), the
  outcome of every HTTP request, and the clock. One call reads the clock as one instant.
  The network answers a request by its content: two requests with the same URL, headers
  and body get the same outcome.

  The built-ins of the language whose results depend on the host are parameters as well:
  parsing and printing of numbers, parsing and locale formatting of dates, and the message
  of the \<^verbatim>\<open>TypeError\<close> thrown for an object that cannot be converted to a primitive.
\<close>

datatype req_body = NoBody | JsonBody jsval | FormBody "(string \<times> string) list"

record http_request =
  url :: string
  http_method :: string
  headers :: "(string \<times> string) list"
  body :: req_body

text \<open>The body of a response: \<^verbatim>\<open>response.json()\<close> throws or gives a value.\<close>

datatype http_body = JsonThrows js_exn | JsonValue jsval

text \<open>\<^verbatim>\<open>fetch\<close> throws (network failure, timeout) or gives a response with a status.\<close>

datatype http_outcome = FetchThrows js_exn | Response nat http_body

definition response_ok :: "nat \<Rightarrow> bool" where
  "response_ok status = (200 \<le> status \<and> status \<le> 299)"

record world =
  readAuthFile :: "(string \<times> jsval) list"
  readJsonFile :: "string \<Rightarrow> jsval"
  fetch :: "http_request \<Rightarrow> http_outcome"
  dateNow :: real
  numberOfString :: "string \<Rightarrow> jsnum"
  stringOfNumber :: "jsnum \<Rightarrow> string"
  dateParse :: "string \<Rightarrow> jsnum"
  toDateString :: "jsnum \<Rightarrow> string"
  toLocaleTimeString :: "jsnum \<Rightarrow> string option"
  toLocaleString :: "jsnum \<Rightarrow> string option"
  typeErrorMessage :: string

subsection \<open>Results that may throw\<close>

definition bind_exn :: "js_exn + 'a \<Rightarrow> ('a \<Rightarrow> js_exn + 'b) \<Rightarrow> js_exn + 'b" where
  "bind_exn m f = (case m of Inl e \<Rightarrow> Inl e | Inr x \<Rightarrow> f x)"

definition map_exn :: "('a \<Rightarrow> 'b) \<Rightarrow> js_exn + 'a \<Rightarrow> js_exn + 'b" where
  "map_exn f m = (case m of Inl e \<Rightarrow> Inl e | Inr x \<Rightarrow> Inr (f x))"

text \<open>The results of a list of steps run in order: the first exception, or all values.\<close>

fun collect :: "(js_exn + 'a) list \<Rightarrow> js_exn + 'a list" where
  "collect [] = Inr []"
| "collect (Inl e # rs) = Inl e"
| "collect (Inr x # rs) = map_exn ((#) x) (collect rs)"

subsection \<open>Coercions\<close>

text \<open>
  \<^verbatim>\<open>ToString\<close>, as a template literal and a property key apply it. An object is converted
  through its \<^verbatim>\<open>toString\<close> and \<^verbatim>\<open>valueOf\<close> members. For a plain object the inherited
  \<^verbatim>\<open>toString\<close> gives \<^verbatim>\<open>[object Object]\<close>; an own property \<^verbatim>\<open>toString\<close> hides it and is not
  callable, the inherited \<^verbatim>\<open>valueOf\<close> returns the object itself and an own one is not
  callable either, so the conversion throws a \<^verbatim>\<open>TypeError\<close>. An array is joined with commas,
  null and undefined elements giving the empty string.
\<close>

fun js_ToString :: "world \<Rightarrow> jsval \<Rightarrow> js_exn + string" where
  "js_ToString W JUndefined = Inr ''undefined''"
| "js_ToString W JNull = Inr ''null''"
| "js_ToString W (JBool b) = Inr (if b then ''true'' else ''false'')"
| "js_ToString W (JNum n) = Inr (stringOfNumber W n)"
| "js_ToString W (JStr s) = Inr s"
| "js_ToString W (JObj kvs) =
     (if map_of kvs ''toString'' = None then Inr ''[object Object]''
      else Inl (JsError (typeErrorMessage W)))"
| "js_ToString W (JArr xs) =
     map_exn join_comma
       (collect (map (\<lambda>x. if is_nullish x then Inr [] else js_ToString W x) xs))"

text \<open>\<^verbatim>\<open>ToNumber\<close>, as \<^verbatim>\<open>*\<close> applies it: an object goes through its string.\<close>

fun js_ToNumber :: "world \<Rightarrow> jsval \<Rightarrow> js_exn + jsnum" where
  "js_ToNumber W JUndefined = Inr NaN"
| "js_ToNumber W JNull = Inr (Fin 0)"
| "js_ToNumber W (JBool b) = Inr (Fin (if b then 1 else 0))"
| "js_ToNumber W (JNum n) = Inr n"
| "js_ToNumber W (JStr s) = Inr (numberOfString W s)"
| "js_ToNumber W v = map_exn (numberOfString W) (js_ToString W v)"

definition js_toFixed :: "world \<Rightarrow> nat \<Rightarrow> jsnum \<Rightarrow> string" where
  "js_toFixed W f n =
     (case n of
        Fin x \<Rightarrow> if \<bar>x\<bar> < 10 ^ 21 then toFixed_digits f x else stringOfNumber W n
      | _ \<Rightarrow> stringOfNumber W n)"

text \<open>
  \<^verbatim>\<open>new Date(v).getTime()\<close>: a string is parsed, an object goes through its string, any
  other value through its number, clipped to the range of time values.
\<close>

definition timeClip :: "jsnum \<Rightarrow> jsnum" where
  "timeClip n =
     (case n of
        Fin x \<Rightarrow> if 8640000000000000 < \<bar>x\<bar> then NaN else Fin (of_int (js_trunc x))
      | _ \<Rightarrow> NaN)"

fun date_getTime :: "world \<Rightarrow> jsval \<Rightarrow> js_exn + jsnum" where
  "date_getTime W (JStr s) = Inr (dateParse W s)"
| "date_getTime W (JObj kvs) = map_exn (dateParse W) (js_ToString W (JObj kvs))"
| "date_getTime W (JArr xs) = map_exn (dateParse W) (js_ToString W (JArr xs))"
| "date_getTime W v = map_exn timeClip (js_ToNumber W v)"

section \<open>Credential resolver and value coercion utilities\<close>

fun getAuthEntry :: "(string \<times> jsval) list \<Rightarrow> string list \<Rightarrow> jsval" where
  "getAuthEntry auth [] = JNull"
| "getAuthEntry auth (alias # aliases) =
     (if truthy (get_prop (JObj auth) alias) then get_prop (JObj auth) alias
      else getAuthEntry auth aliases)"

definition normalizeAuthEntry :: "jsval \<Rightarrow> jsval" where
  "normalizeAuthEntry entry =
     (if \<not> truthy entry then JNull
      else (case entry of
              JStr s \<Rightarrow> JObj [(''token'', entry)]
            | _ \<Rightarrow> if is_object_type entry then entry else JNull))"

definition asObject :: "jsval \<Rightarrow> jsval" where
  "asObject v = (if truthy v \<and> is_object_type v then v else JNull)"

definition asNonEmptyString :: "jsval \<Rightarrow> jsval" where
  "asNonEmptyString v =
     (case v of
        JStr s \<Rightarrow> (let trimmed = js_trim s in if trimmed \<noteq> [] then JStr trimmed else JNull)
      | _ \<Rightarrow> JNull)"

record refresh_parts =
  rp_refreshToken :: jsval
  rp_projectId :: jsval
  rp_managedProjectId :: jsval

definition nth_or_empty :: "string list \<Rightarrow> nat \<Rightarrow> string" where
  "nth_or_empty xs i = (if i < length xs then xs ! i else [])"

definition parseGoogleRefreshToken :: "jsval \<Rightarrow> refresh_parts" where
  "parseGoogleRefreshToken rawRefreshToken =
     (case asNonEmptyString rawRefreshToken of
        JStr refreshToken \<Rightarrow>
          (let parts = split_on (CHR ''|'') refreshToken
           in \<lparr>rp_refreshToken = asNonEmptyString (JStr (nth_or_empty parts 0)),
               rp_projectId = asNonEmptyString (JStr (nth_or_empty parts 1)),
               rp_managedProjectId = asNonEmptyString (JStr (nth_or_empty parts 2))\<rparr>)
      | _ \<Rightarrow> \<lparr>rp_refreshToken = JNull, rp_projectId = JNull, rp_managedProjectId = JNull\<rparr>)"

text \<open>\<^verbatim>\<open>toNumber\<close>: a finite number, or null (\<open>None\<close>).\<close>

definition toNumber :: "world \<Rightarrow> jsval \<Rightarrow> jsnum option" where
  "toNumber W v =
     (case v of
        JNum n \<Rightarrow> if is_finite n then Some n else None
      | JStr s \<Rightarrow> (let parsed = numberOfString W s in if is_finite parsed then Some parsed else None)
      | _ \<Rightarrow> None)"

definition toTimestamp :: "world \<Rightarrow> jsval \<Rightarrow> jsnum option" where
  "toTimestamp W v =
     (if \<not> truthy v then None
      else (case v of
              JNum n \<Rightarrow> Some (if js_lt n (Fin 1000000000000) then js_mul n (Fin 1000) else n)
            | JStr s \<Rightarrow> (let parsed = dateParse W s in if parsed = NaN then None else Some parsed)
            | _ \<Rightarrow> None))"

text \<open>
  \<^verbatim>\<open>formatResetTime\<close>: the locale formatters may throw, which the function catches and
  turns into null.
\<close>

definition formatResetTime :: "world \<Rightarrow> jsnum \<Rightarrow> string option" where
  "formatResetTime W timestamp =
     (if toDateString W timestamp = toDateString W (Fin (dateNow W))
      then toLocaleTimeString W timestamp
      else toLocaleString W timestamp)"

text \<open>Truthiness of a value that is a number or null.\<close>

fun truthy_num :: "jsnum option \<Rightarrow> bool" where
  "truthy_num None = False"
| "truthy_num (Some n) = truthy (JNum n)"

definition calculateResetAfterSeconds :: "world \<Rightarrow> jsnum option \<Rightarrow> jsnum option" where
  "calculateResetAfterSeconds W ra =
     (case ra of
        None \<Rightarrow> None
      | Some t \<Rightarrow>
          if \<not> truthy_num ra then None
          else (let delta = js_floor (js_div (js_sub t (Fin (dateNow W))) (Fin 1000))
                in Some (if js_lt delta (Fin 0) then Fin 0 else delta)))"

section \<open>Usage window builder and result builder\<close>

record usage_window =
  usedPercent :: "jsnum option"
  remainingPercent :: "jsnum option"
  windowSeconds :: "jsnum option"
  resetAfterSeconds :: "jsnum option"
  resetAt :: "jsnum option"
  resetAtFormatted :: "string option"
  resetAfterFormatted :: "string option"
  valueLabel :: "string option"

text \<open>
  \<^verbatim>\<open>toUsageWindow\<close>. Every caller in the dispatch facade passes a number or null for
  \<^verbatim>\<open>usedPercent\<close>, \<^verbatim>\<open>windowSeconds\<close> and \<^verbatim>\<open>resetAt\<close>, and a string or null for
  \<^verbatim>\<open>valueLabel\<close>; null is \<open>None\<close>. A falsy label leaves the field out (\<open>None\<close>).
\<close>

definition toUsageWindow ::
  "world \<Rightarrow> jsnum option \<Rightarrow> jsnum option \<Rightarrow> jsnum option \<Rightarrow> string option \<Rightarrow> usage_window" where
  "toUsageWindow W up ws ra vl =
     (let resetAfter = calculateResetAfterSeconds W ra;
          resetFormatted = (case ra of
                              None \<Rightarrow> None
                            | Some t \<Rightarrow> if truthy_num ra then formatResetTime W t else None)
      in \<lparr>usedPercent = up,
          remainingPercent = (case up of
                                None \<Rightarrow> None
                              | Some u \<Rightarrow> Some (js_max (Fin 0) (js_sub (Fin 100) u))),
          windowSeconds = ws,
          resetAfterSeconds = resetAfter,
          resetAt = ra,
          resetAtFormatted = resetFormatted,
          resetAfterFormatted = resetFormatted,
          valueLabel = (case vl of None \<Rightarrow> None | Some l \<Rightarrow> if l \<noteq> [] then Some l else None)\<rparr>)"

type_synonym windows = "(string \<times> usage_window) list"

record model_windows =
  mw_windows :: windows

record usage =
  windows :: windows
  models :: "(string \<times> model_windows) list option"

record provider_result =
  providerId :: string
  providerName :: string
  ok :: bool
  configured :: bool
  usage :: "usage option"
  error :: "string option"
  fetchedAt :: real

text \<open>
  \<^verbatim>\<open>buildResult\<close>: \<^verbatim>\<open>usage\<close> and \<^verbatim>\<open>error\<close> may be left out by the caller (\<open>None\<close>);
  a falsy error leaves the \<^verbatim>\<open>error\<close> field out of the result.
\<close>

definition buildResult ::
  "world \<Rightarrow> string \<Rightarrow> string \<Rightarrow> bool \<Rightarrow> bool \<Rightarrow> usage option \<Rightarrow> string option \<Rightarrow> provider_result" where
  "buildResult W pid pname isOk isConfigured u err =
     \<lparr>providerId = pid,
      providerName = pname,
      ok = isOk,
      configured = isConfigured,
      usage = u,
      error = (case err of None \<Rightarrow> None | Some e \<Rightarrow> if e \<noteq> [] then Some e else None),
      fetchedAt = dateNow W\<rparr>"

text \<open>Assignment \<^verbatim>\<open>obj[key] = value\<close> on an object kept as its list of entries.\<close>

fun obj_set :: "(string \<times> 'a) list \<Rightarrow> string \<Rightarrow> 'a \<Rightarrow> (string \<times> 'a) list" where
  "obj_set [] k v = [(k, v)]"
| "obj_set ((k', v') # kvs) k v = (if k' = k then (k, v) # kvs else (k', v') # obj_set kvs k v)"

definition durationToLabel :: "world \<Rightarrow> jsval \<Rightarrow> jsval \<Rightarrow> js_exn + string" where
  "durationToLabel W duration unit =
     (if \<not> truthy duration \<or> \<not> truthy unit then Inr ''limit''
      else if unit = JStr ''TIME_UNIT_MINUTE'' then map_exn (\<lambda>s. s @ ''m'') (js_ToString W duration)
      else if unit = JStr ''TIME_UNIT_HOUR'' then map_exn (\<lambda>s. s @ ''h'') (js_ToString W duration)
      else if unit = JStr ''TIME_UNIT_DAY'' then map_exn (\<lambda>s. s @ ''d'') (js_ToString W duration)
      else Inr ''limit'')"

definition durationToSeconds :: "world \<Rightarrow> jsval \<Rightarrow> jsval \<Rightarrow> js_exn + jsnum option" where
  "durationToSeconds W duration unit =
     (if \<not> truthy duration \<or> \<not> truthy unit then Inr None
      else if unit = JStr ''TIME_UNIT_MINUTE''
      then map_exn (\<lambda>n. Some (js_mul n (Fin 60))) (js_ToNumber W duration)
      else if unit = JStr ''TIME_UNIT_HOUR''
      then map_exn (\<lambda>n. Some (js_mul n (Fin 3600))) (js_ToNumber W duration)
      else if unit = JStr ''TIME_UNIT_DAY''
      then map_exn (\<lambda>n. Some (js_mul n (Fin 86400))) (js_ToNumber W duration)
      else Inr None)"

section \<open>Google OAuth sources\<close>

record auth_source =
  sourceId :: string
  sourceLabel :: string
  accessToken :: jsval
  refreshToken :: jsval
  projectId :: jsval
  expires :: "jsnum option"
  email :: jsval

definition resolveGeminiCliAuth :: "world \<Rightarrow> (string \<times> jsval) list \<Rightarrow> auth_source option" where
  "resolveGeminiCliAuth W auth =
     (let entry = normalizeAuthEntry (getAuthEntry auth [''google'', ''google.oauth'']);
          entryObject = asObject entry
      in if \<not> truthy entryObject then None
         else (let oauthObject = nullish_or (asObject (get_prop entryObject ''oauth'')) entryObject;
                   token = nullish_or (asNonEmptyString (get_prop oauthObject ''access''))
                                      (asNonEmptyString (get_prop oauthObject ''token''));
                   refreshParts = parseGoogleRefreshToken (get_prop oauthObject ''refresh'')
               in if \<not> truthy token \<and> \<not> truthy (rp_refreshToken refreshParts) then None
                  else Some \<lparr>sourceId = ''gemini'',
                             sourceLabel = ''Gemini'',
                             accessToken = token,
                             refreshToken = rp_refreshToken refreshParts,
                             projectId = nullish_or (rp_projectId refreshParts)
                                                    (rp_managedProjectId refreshParts),
                             expires = toTimestamp W (get_prop oauthObject ''expires''),
                             email = JUndefined\<rparr>))"

text \<open>The two account files, in the order they are read; \<^verbatim>\<open>~\<close> is the home directory.\<close>

definition ANTIGRAVITY_ACCOUNTS_PATHS :: "string list" where
  "ANTIGRAVITY_ACCOUNTS_PATHS =
     [''~/.config/opencode/antigravity-accounts.json'',
      ''~/.local/share/opencode/antigravity-accounts.json'']"

text \<open>\<^verbatim>\<open>xs[n]\<close> for a number \<^verbatim>\<open>n\<close>: an element at a natural index in range, else undefined.\<close>

definition arr_get :: "jsval list \<Rightarrow> jsnum \<Rightarrow> jsval" where
  "arr_get xs n =
     (case n of
        Fin r \<Rightarrow> if 0 \<le> r \<and> r = of_int \<lfloor>r\<rfloor> \<and> nat \<lfloor>r\<rfloor> < length xs
                 then xs ! nat \<lfloor>r\<rfloor> else JUndefined
      | _ \<Rightarrow> JUndefined)"

fun resolveAntigravityAuth_paths :: "world \<Rightarrow> string list \<Rightarrow> auth_source option" where
  "resolveAntigravityAuth_paths W [] = None"
| "resolveAntigravityAuth_paths W (filePath # filePaths) =
     (let content = readJsonFile W filePath
      in (case opt_prop content ''accounts'' of
            JArr accounts \<Rightarrow>
              if accounts = [] then resolveAntigravityAuth_paths W filePaths
              else (let index = (case get_prop content ''activeIndex'' of JNum n \<Rightarrow> n | _ \<Rightarrow> Fin 0);
                        account = nullish_or (arr_get accounts index) (arr_get accounts (Fin 0))
                    in if truthy (opt_prop account ''refreshToken'')
                       then (let refreshParts = parseGoogleRefreshToken (get_prop account ''refreshToken'')
                             in Some \<lparr>sourceId = ''antigravity'',
                                      sourceLabel = ''Antigravity'',
                                      accessToken = JUndefined,
                                      refreshToken = rp_refreshToken refreshParts,
                                      projectId =
                                        nullish_or (asNonEmptyString (get_prop account ''projectId''))
                                          (nullish_or (asNonEmptyString (get_prop account ''managedProjectId''))
                                             (nullish_or (rp_projectId refreshParts)
                                                (rp_managedProjectId refreshParts))),
                                      expires = None,
                                      email = get_prop account ''email''\<rparr>)
                       else resolveAntigravityAuth_paths W filePaths)
          | _ \<Rightarrow> resolveAntigravityAuth_paths W filePaths))"

definition resolveAntigravityAuth :: "world \<Rightarrow> auth_source option" where
  "resolveAntigravityAuth W = resolveAntigravityAuth_paths W ANTIGRAVITY_ACCOUNTS_PATHS"

definition resolveGoogleAuthSources :: "world \<Rightarrow> auth_source list" where
  "resolveGoogleAuthSources W =
     (case resolveGeminiCliAuth W (readAuthFile W) of Some geminiAuth \<Rightarrow> [geminiAuth] | None \<Rightarrow> [])
     @ (case resolveAntigravityAuth W of Some antigravityAuth \<Rightarrow> [antigravityAuth] | None \<Rightarrow> [])"

section \<open>Configured-provider enumerator\<close>

text \<open>A resolved auth source is an object, hence truthy; null is not.\<close>

fun truthy_source :: "auth_source option \<Rightarrow> bool" where
  "truthy_source None = False"
| "truthy_source (Some source) = True"

definition listConfiguredQuotaProviders :: "world \<Rightarrow> string list" where
  "listConfiguredQuotaProviders W =
     (let auth = readAuthFile W;
          anthropicAuth = normalizeAuthEntry (getAuthEntry auth [''anthropic'', ''claude'']);
          openaiAuth = normalizeAuthEntry (getAuthEntry auth [''openai'', ''codex'', ''chatgpt'']);
          zaiAuth = normalizeAuthEntry (getAuthEntry auth [''zai-coding-plan'', ''zai'', ''z.ai'']);
          kimiAuth = normalizeAuthEntry (getAuthEntry auth [''kimi-for-coding'', ''kimi'']);
          openrouterAuth = normalizeAuthEntry (getAuthEntry auth [''openrouter'']);
          nanopgAuth = normalizeAuthEntry (getAuthEntry auth [''nano-gpt'', ''nanogpt'', ''nano_gpt'']);
          copilotAuth = normalizeAuthEntry (getAuthEntry auth [''github-copilot'', ''copilot''])
      in (if truthy (truthy_or (opt_prop anthropicAuth ''access'') (opt_prop anthropicAuth ''token''))
          then [''claude''] else [])
       @ (if truthy (truthy_or (opt_prop openaiAuth ''access'') (opt_prop openaiAuth ''token''))
          then [''codex''] else [])
       @ (if truthy_source (resolveGeminiCliAuth W auth) \<or> truthy_source (resolveAntigravityAuth W)
          then [''google''] else [])
       @ (if truthy (truthy_or (opt_prop zaiAuth ''key'') (opt_prop zaiAuth ''token''))
          then [''zai-coding-plan''] else [])
       @ (if truthy (truthy_or (opt_prop kimiAuth ''key'') (opt_prop kimiAuth ''token''))
          then [''kimi-for-coding''] else [])
       @ (if truthy (truthy_or (opt_prop openrouterAuth ''key'') (opt_prop openrouterAuth ''token''))
          then [''openrouter''] else [])
       @ (if truthy (truthy_or (opt_prop nanopgAuth ''key'') (opt_prop nanopgAuth ''token''))
          then [''nano-gpt''] else [])
       @ (if truthy (truthy_or (opt_prop copilotAuth ''access'') (opt_prop copilotAuth ''token''))
          then [''github-copilot'', ''github-copilot-addon''] else []))"

section \<open>Per-provider fetchers\<close>

text \<open>
  A fetcher is an async function: it resolves to a result (\<open>Inr\<close>) or rejects with the
  exception that escaped it (\<open>Inl\<close>). The nine fetchers that the dispatch facade routes to
  are embedded; \<^verbatim>\<open>fetchOpenaiQuota\<close>, which the facade does not route to, is left out.
  \<^verbatim>\<open>readAuthFile\<close> is taken to return the credential mapping.

  The body of the \<^verbatim>\<open>try\<close> block of a fetcher is a function of its own, named after the
  fetcher: it gives a result or the exception thrown inside the block, by the request, by
  reading the body, or by a coercion. What the \<^verbatim>\<open>catch (error)\<close> block reports:
\<close>

definition catch_message :: "js_exn \<Rightarrow> string" where
  "catch_message e = (case e of JsError message \<Rightarrow> message | JsThrown v \<Rightarrow> ''Request failed'')"

subsection \<open>Claude\<close>

definition claudeWindow :: "world \<Rightarrow> jsval \<Rightarrow> usage_window" where
  "claudeWindow W period =
     toUsageWindow W (toNumber W (get_prop period ''utilization'')) None
       (toTimestamp W (get_prop period ''resets_at'')) None"

definition claudeWindows :: "world \<Rightarrow> jsval \<Rightarrow> windows" where
  "claudeWindows W payload =
     (let fiveHour = nullish_or (opt_prop payload ''five_hour'') JNull;
          sevenDay = nullish_or (opt_prop payload ''seven_day'') JNull;
          sevenDaySonnet = nullish_or (opt_prop payload ''seven_day_sonnet'') JNull;
          sevenDayOpus = nullish_or (opt_prop payload ''seven_day_opus'') JNull;
          w0 = [];
          w1 = (if truthy fiveHour then obj_set w0 ''5h'' (claudeWindow W fiveHour) else w0);
          w2 = (if truthy sevenDay then obj_set w1 ''7d'' (claudeWindow W sevenDay) else w1);
          w3 = (if truthy sevenDaySonnet then obj_set w2 ''7d-sonnet'' (claudeWindow W sevenDaySonnet) else w2);
          w4 = (if truthy sevenDayOpus then obj_set w3 ''7d-opus'' (claudeWindow W sevenDayOpus) else w3)
      in w4)"

definition claudeTry :: "world \<Rightarrow> jsval \<Rightarrow> js_exn + provider_result" where
  "claudeTry W token =
     (case js_ToString W token of
        Inl e \<Rightarrow> Inl e
      | Inr bearer \<Rightarrow>
          (case fetch W \<lparr>url = ''https://api.anthropic.com/api/oauth/usage'',
                         http_method = ''GET'',
                         headers = [(''Authorization'', ''Bearer '' @ bearer),
                                    (''anthropic-beta'', ''oauth-2025-04-20'')],
                         body = NoBody\<rparr> of
             FetchThrows e \<Rightarrow> Inl e
           | Response status content \<Rightarrow>
               if \<not> response_ok status
               then Inr (buildResult W ''claude'' ''Claude'' False True None
                           (Some (''API error: '' @ decimal status)))
               else (case content of
                       JsonThrows e \<Rightarrow> Inl e
                     | JsonValue payload \<Rightarrow>
                         Inr (buildResult W ''claude'' ''Claude'' True True
                                (Some \<lparr>windows = claudeWindows W payload, models = None\<rparr>)
                                None))))"

definition fetchClaudeQuota :: "world \<Rightarrow> js_exn + provider_result" where
  "fetchClaudeQuota W =
     (let entry = normalizeAuthEntry (getAuthEntry (readAuthFile W) [''anthropic'', ''claude'']);
          token = nullish_or (opt_prop entry ''access'') (opt_prop entry ''token'')
      in if \<not> truthy token
         then Inr (buildResult W ''claude'' ''Claude'' False False None (Some ''Not configured''))
         else (case claudeTry W token of
                 Inl e \<Rightarrow>
                   Inr (buildResult W ''claude'' ''Claude'' False True None (Some (catch_message e)))
               | Inr r \<Rightarrow> Inr r))"

subsection \<open>Codex\<close>

definition formatMoney :: "world \<Rightarrow> jsnum \<Rightarrow> string option" where
  "formatMoney W v = (if is_finite v then Some (js_toFixed W 2 v) else None)"

text \<open>A string or null inside a template literal.\<close>

definition template_of :: "string option \<Rightarrow> string" where
  "template_of s = (case s of Some t \<Rightarrow> t | None \<Rightarrow> ''null'')"

definition codexRateWindow :: "world \<Rightarrow> jsval \<Rightarrow> usage_window" where
  "codexRateWindow W w =
     toUsageWindow W (toNumber W (get_prop w ''used_percent''))
       (toNumber W (get_prop w ''limit_window_seconds''))
       (toTimestamp W (get_prop w ''reset_at'')) None"

definition codexWindows :: "world \<Rightarrow> jsval \<Rightarrow> windows" where
  "codexWindows W payload =
     (let primary = nullish_or (opt_prop (opt_prop payload ''rate_limit'') ''primary_window'') JNull;
          secondary = nullish_or (opt_prop (opt_prop payload ''rate_limit'') ''secondary_window'') JNull;
          credits = nullish_or (opt_prop payload ''credits'') JNull;
          w0 = [];
          w1 = (if truthy primary then obj_set w0 ''5h'' (codexRateWindow W primary) else w0);
          w2 = (if truthy secondary then obj_set w1 ''weekly'' (codexRateWindow W secondary) else w1);
          w3 = (if truthy credits
                then (let balance = toNumber W (get_prop credits ''balance'');
                          unlimited = truthy (get_prop credits ''unlimited'');
                          label = (if unlimited then Some ''Unlimited''
                                   else (case balance of
                                           Some b \<Rightarrow> Some (''$'' @ template_of (formatMoney W b) @ '' remaining'')
                                         | None \<Rightarrow> None))
                      in obj_set w2 ''credits'' (toUsageWindow W None None None label))
                else w2)
      in w3)"

definition codexTry :: "world \<Rightarrow> jsval \<Rightarrow> jsval \<Rightarrow> js_exn + provider_result" where
  "codexTry W token accountId =
     (case js_ToString W token of
        Inl e \<Rightarrow> Inl e
      | Inr bearer \<Rightarrow>
          (case (if truthy accountId
                 then map_exn (\<lambda>account. [(''ChatGPT-Account-Id'', account)]) (js_ToString W accountId)
                 else Inr []) of
             Inl e \<Rightarrow> Inl e
           | Inr accountHeader \<Rightarrow>
               (case fetch W \<lparr>url = ''https://chatgpt.com/backend-api/wham/usage'',
                              http_method = ''GET'',
                              headers = [(''Authorization'', ''Bearer '' @ bearer),
                                         (''Content-Type'', ''application/json'')] @ accountHeader,
                              body = NoBody\<rparr> of
                  FetchThrows e \<Rightarrow> Inl e
                | Response status content \<Rightarrow>
                    if \<not> response_ok status
                    then Inr (buildResult W ''codex'' ''Codex'' False True None
                                (Some (''API error: '' @ decimal status)))
                    else (case content of
                            JsonThrows e \<Rightarrow> Inl e
                          | JsonValue payload \<Rightarrow>
                              Inr (buildResult W ''codex'' ''Codex'' True True
                                     (Some \<lparr>windows = codexWindows W payload, models = None\<rparr>)
                                     None)))))"

definition fetchCodexQuota :: "world \<Rightarrow> js_exn + provider_result" where
  "fetchCodexQuota W =
     (let entry = normalizeAuthEntry (getAuthEntry (readAuthFile W) [''openai'', ''codex'', ''chatgpt'']);
          token = nullish_or (opt_prop entry ''access'') (opt_prop entry ''token'');
          accountId = opt_prop entry ''accountId''
      in if \<not> truthy token
         then Inr (buildResult W ''codex'' ''Codex'' False False None (Some ''Not configured''))
         else (case codexTry W token accountId of
                 Inl e \<Rightarrow>
                   Inr (buildResult W ''codex'' ''Codex'' False True None (Some (catch_message e)))
               | Inr r \<Rightarrow> Inr r))"

subsection \<open>GitHub Copilot\<close>

text \<open>
  The percentage of an entitlement that is used, as Copilot, Kimi and OpenRouter compute it:
  \<^verbatim>\<open>limit && value !== null ? Math.max(0, Math.min(100, ...)) : null\<close>.
\<close>

definition clamp_percent :: "jsnum \<Rightarrow> jsnum" where
  "clamp_percent x = js_max (Fin 0) (js_min (Fin 100) x)"

definition addWindow :: "world \<Rightarrow> jsnum option \<Rightarrow> string \<Rightarrow> jsval \<Rightarrow> windows \<Rightarrow> windows" where
  "addWindow W ra label snapshot ws =
     (if \<not> truthy snapshot then ws
      else (let entitlement = toNumber W (get_prop snapshot ''entitlement'');
                remaining = toNumber W (get_prop snapshot ''remaining'');
                used = (case (entitlement, remaining) of
                          (Some e, Some r) \<Rightarrow>
                            if truthy_num entitlement
                            then Some (clamp_percent
                                         (js_sub (Fin 100) (js_mul (js_div r e) (Fin 100))))
                            else None
                        | _ \<Rightarrow> None);
                label_text = (case (entitlement, remaining) of
                                (Some e, Some r) \<Rightarrow>
                                  Some (js_toFixed W 0 r @ '' / '' @ js_toFixed W 0 e @ '' left'')
                              | _ \<Rightarrow> None)
            in obj_set ws label (toUsageWindow W used None ra label_text)))"

definition buildCopilotWindows :: "world \<Rightarrow> jsval \<Rightarrow> windows" where
  "buildCopilotWindows W payload =
     (let quota = nullish_or (opt_prop payload ''quota_snapshots'') (JObj []);
          ra = toTimestamp W (opt_prop payload ''quota_reset_date'');
          w1 = addWindow W ra ''chat'' (get_prop quota ''chat'') [];
          w2 = addWindow W ra ''completions'' (get_prop quota ''completions'') w1;
          w3 = addWindow W ra ''premium'' (get_prop quota ''premium_interactions'') w2
      in w3)"

definition copilot_request :: "string \<Rightarrow> http_request" where
  "copilot_request credential =
     \<lparr>url = ''https://api.github.com/copilot_internal/user'',
      http_method = ''GET'',
      headers = [(''Authorization'', ''token '' @ credential),
                 (''Accept'', ''application/json''),
                 (''Editor-Version'', ''vscode/1.96.2''),
                 (''X-Github-Api-Version'', ''2025-04-01'')],
      body = NoBody\<rparr>"

definition copilotTry :: "world \<Rightarrow> jsval \<Rightarrow> js_exn + provider_result" where
  "copilotTry W token =
     (case js_ToString W token of
        Inl e \<Rightarrow> Inl e
      | Inr credential \<Rightarrow>
          (case fetch W (copilot_request credential) of
             FetchThrows e \<Rightarrow> Inl e
           | Response status content \<Rightarrow>
               if \<not> response_ok status
               then Inr (buildResult W ''github-copilot'' ''GitHub Copilot'' False True None
                           (Some (''API error: '' @ decimal status)))
               else (case content of
                       JsonThrows e \<Rightarrow> Inl e
                     | JsonValue payload \<Rightarrow>
                         Inr (buildResult W ''github-copilot'' ''GitHub Copilot'' True True
                                (Some \<lparr>windows = buildCopilotWindows W payload, models = None\<rparr>)
                                None))))"

definition fetchCopilotQuota :: "world \<Rightarrow> js_exn + provider_result" where
  "fetchCopilotQuota W =
     (let entry = normalizeAuthEntry (getAuthEntry (readAuthFile W) [''github-copilot'', ''copilot'']);
          token = nullish_or (opt_prop entry ''access'') (opt_prop entry ''token'')
      in if \<not> truthy token
         then Inr (buildResult W ''github-copilot'' ''GitHub Copilot'' False False None
                     (Some ''Not configured''))
         else (case copilotTry W token of
                 Inl e \<Rightarrow>
                   Inr (buildResult W ''github-copilot'' ''GitHub Copilot'' False True None
                          (Some (catch_message e)))
               | Inr r \<Rightarrow> Inr r))"

definition copilotAddonTry :: "world \<Rightarrow> jsval \<Rightarrow> js_exn + provider_result" where
  "copilotAddonTry W token =
     (case js_ToString W token of
        Inl e \<Rightarrow> Inl e
      | Inr credential \<Rightarrow>
          (case fetch W (copilot_request credential) of
             FetchThrows e \<Rightarrow> Inl e
           | Response status content \<Rightarrow>
               if \<not> response_ok status
               then Inr (buildResult W ''github-copilot-addon'' ''GitHub Copilot Add-on'' False True
                           None (Some (''API error: '' @ decimal status)))
               else (case content of
                       JsonThrows e \<Rightarrow> Inl e
                     | JsonValue payload \<Rightarrow>
                         (let ws = buildCopilotWindows W payload;
                              premium = (case map_of ws ''premium'' of
                                           Some w \<Rightarrow> [(''premium'', w)]
                                         | None \<Rightarrow> ws)
                          in Inr (buildResult W ''github-copilot-addon'' ''GitHub Copilot Add-on''
                                    True True (Some \<lparr>windows = premium, models = None\<rparr>) None)))))"

definition fetchCopilotAddonQuota :: "world \<Rightarrow> js_exn + provider_result" where
  "fetchCopilotAddonQuota W =
     (let entry = normalizeAuthEntry (getAuthEntry (readAuthFile W) [''github-copilot'', ''copilot'']);
          token = nullish_or (opt_prop entry ''access'') (opt_prop entry ''token'')
      in if \<not> truthy token
         then Inr (buildResult W ''github-copilot-addon'' ''GitHub Copilot Add-on'' False False None
                     (Some ''Not configured''))
         else (case copilotAddonTry W token of
                 Inl e \<Rightarrow>
                   Inr (buildResult W ''github-copilot-addon'' ''GitHub Copilot Add-on'' False True
                          None (Some (catch_message e)))
               | Inr r \<Rightarrow> Inr r))"

subsection \<open>Kimi\<close>

definition ratio_used :: "jsnum option \<Rightarrow> jsnum option \<Rightarrow> jsnum option" where
  "ratio_used whole remaining =
     (case (whole, remaining) of
        (Some t, Some r) \<Rightarrow>
          if truthy_num whole
          then Some (clamp_percent (js_sub (Fin 100) (js_mul (js_div r t) (Fin 100))))
          else None
      | _ \<Rightarrow> None)"

text \<open>
  One pass of the loop over \<^verbatim>\<open>payload.limits\<close>: the label and the length of the window
  coerce the upstream duration, which may throw.
\<close>

definition kimiLimitWindow :: "world \<Rightarrow> jsval \<Rightarrow> windows \<Rightarrow> js_exn + windows" where
  "kimiLimitWindow W limit ws =
     (let window = opt_prop limit ''window'';
          detail = opt_prop limit ''detail''
      in (case durationToLabel W (opt_prop window ''duration'') (opt_prop window ''timeUnit'') of
            Inl e \<Rightarrow> Inl e
          | Inr rawLabel \<Rightarrow>
              (case durationToSeconds W (opt_prop window ''duration'') (opt_prop window ''timeUnit'') of
                 Inl e \<Rightarrow> Inl e
               | Inr seconds \<Rightarrow>
                   (let label = (if seconds = Some (Fin 18000)
                                 then ''Rate Limit ('' @ rawLabel @ '')'' else rawLabel);
                        whole = toNumber W (opt_prop detail ''limit'');
                        remaining = toNumber W (opt_prop detail ''remaining'')
                    in Inr (obj_set ws label
                              (toUsageWindow W (ratio_used whole remaining) seconds
                                 (toTimestamp W (opt_prop detail ''resetTime'')) None))))))"

fun kimiLimits :: "world \<Rightarrow> jsval list \<Rightarrow> windows \<Rightarrow> js_exn + windows" where
  "kimiLimits W [] ws = Inr ws"
| "kimiLimits W (limit # limits) ws =
     (case kimiLimitWindow W limit ws of
        Inl e \<Rightarrow> Inl e
      | Inr ws' \<Rightarrow> kimiLimits W limits ws')"

definition kimiWindows :: "world \<Rightarrow> jsval \<Rightarrow> js_exn + windows" where
  "kimiWindows W payload =
     (let used = nullish_or (opt_prop payload ''usage'') JNull;
          w1 = (if truthy used
                then obj_set [] ''weekly''
                       (toUsageWindow W
                          (ratio_used (toNumber W (get_prop used ''limit''))
                                      (toNumber W (get_prop used ''remaining'')))
                          None (toTimestamp W (get_prop used ''resetTime'')) None)
                else []);
          limits = (case opt_prop payload ''limits'' of JArr ls \<Rightarrow> ls | _ \<Rightarrow> [])
      in kimiLimits W limits w1)"

definition kimiTry :: "world \<Rightarrow> jsval \<Rightarrow> js_exn + provider_result" where
  "kimiTry W apiKey =
     (case js_ToString W apiKey of
        Inl e \<Rightarrow> Inl e
      | Inr bearer \<Rightarrow>
          (case fetch W \<lparr>url = ''https://api.kimi.com/coding/v1/usages'',
                         http_method = ''GET'',
                         headers = [(''Authorization'', ''Bearer '' @ bearer),
                                    (''Content-Type'', ''application/json'')],
                         body = NoBody\<rparr> of
             FetchThrows e \<Rightarrow> Inl e
           | Response status content \<Rightarrow>
               if \<not> response_ok status
               then Inr (buildResult W ''kimi-for-coding'' ''Kimi for Coding'' False True None
                           (Some (''API error: '' @ decimal status)))
               else (case content of
                       JsonThrows e \<Rightarrow> Inl e
                     | JsonValue payload \<Rightarrow>
                         (case kimiWindows W payload of
                            Inl e \<Rightarrow> Inl e
                          | Inr ws \<Rightarrow>
                              Inr (buildResult W ''kimi-for-coding'' ''Kimi for Coding'' True True
                                     (Some \<lparr>windows = ws, models = None\<rparr>) None)))))"

definition fetchKimiQuota :: "world \<Rightarrow> js_exn + provider_result" where
  "fetchKimiQuota W =
     (let entry = normalizeAuthEntry (getAuthEntry (readAuthFile W) [''kimi-for-coding'', ''kimi'']);
          apiKey = nullish_or (opt_prop entry ''key'') (opt_prop entry ''token'')
      in if \<not> truthy apiKey
         then Inr (buildResult W ''kimi-for-coding'' ''Kimi for Coding'' False False None
                     (Some ''Not configured''))
         else (case kimiTry W apiKey of
                 Inl e \<Rightarrow>
                   Inr (buildResult W ''kimi-for-coding'' ''Kimi for Coding'' False True None
                          (Some (catch_message e)))
               | Inr r \<Rightarrow> Inr r))"

subsection \<open>OpenRouter\<close>

definition openRouterWindows :: "world \<Rightarrow> jsval \<Rightarrow> windows" where
  "openRouterWindows W payload =
     (let credits = nullish_or (opt_prop payload ''data'') (JObj []);
          totalCredits = toNumber W (get_prop credits ''total_credits'');
          totalUsage = toNumber W (get_prop credits ''total_usage'');
          remaining = (case (totalCredits, totalUsage) of
                         (Some c, Some u) \<Rightarrow> Some (js_max (Fin 0) (js_sub c u))
                       | _ \<Rightarrow> None);
          used = (case (totalCredits, totalUsage) of
                    (Some c, Some u) \<Rightarrow>
                      if truthy_num totalCredits
                      then Some (clamp_percent (js_mul (js_div u c) (Fin 100)))
                      else None
                  | _ \<Rightarrow> None);
          label = (case remaining of
                     Some r \<Rightarrow> Some (''$'' @ template_of (formatMoney W r) @ '' remaining'')
                   | None \<Rightarrow> None)
      in [(''credits'', toUsageWindow W used None None label)])"

definition openRouterTry :: "world \<Rightarrow> jsval \<Rightarrow> js_exn + provider_result" where
  "openRouterTry W apiKey =
     (case js_ToString W apiKey of
        Inl e \<Rightarrow> Inl e
      | Inr bearer \<Rightarrow>
          (case fetch W \<lparr>url = ''https://openrouter.ai/api/v1/credits'',
                         http_method = ''GET'',
                         headers = [(''Authorization'', ''Bearer '' @ bearer),
                                    (''Content-Type'', ''application/json'')],
                         body = NoBody\<rparr> of
             FetchThrows e \<Rightarrow> Inl e
           | Response status content \<Rightarrow>
               if \<not> response_ok status
               then Inr (buildResult W ''openrouter'' ''OpenRouter'' False True None
                           (Some (''API error: '' @ decimal status)))
               else (case content of
                       JsonThrows e \<Rightarrow> Inl e
                     | JsonValue payload \<Rightarrow>
                         Inr (buildResult W ''openrouter'' ''OpenRouter'' True True
                                (Some \<lparr>windows = openRouterWindows W payload, models = None\<rparr>)
                                None))))"

definition fetchOpenRouterQuota :: "world \<Rightarrow> js_exn + provider_result" where
  "fetchOpenRouterQuota W =
     (let entry = normalizeAuthEntry (getAuthEntry (readAuthFile W) [''openrouter'']);
          apiKey = nullish_or (opt_prop entry ''key'') (opt_prop entry ''token'')
      in if \<not> truthy apiKey
         then Inr (buildResult W ''openrouter'' ''OpenRouter'' False False None
                     (Some ''Not configured''))
         else (case openRouterTry W apiKey of
                 Inl e \<Rightarrow>
                   Inr (buildResult W ''openrouter'' ''OpenRouter'' False True None
                          (Some (catch_message e)))
               | Inr r \<Rightarrow> Inr r))"

subsection \<open>z.ai\<close>

definition normalizeTimestamp :: "jsval \<Rightarrow> jsnum option" where
  "normalizeTimestamp v =
     (case v of
        JNum n \<Rightarrow> Some (if js_lt n (Fin 1000000000000) then js_mul n (Fin 1000) else n)
      | _ \<Rightarrow> None)"

text \<open>
  \<^verbatim>\<open>ZAI_TOKEN_WINDOW_SECONDS[limit.unit]\<close>: the unit becomes a property key by
  \<^verbatim>\<open>ToString\<close>, which may throw. The table has the one own key \<^verbatim>\<open>3\<close>; as an object
  literal it also inherits the members of \<^verbatim>\<open>Object.prototype\<close>, which are functions (and,
  under \<^verbatim>\<open>__proto__\<close>, the prototype object): truthy values whose number is NaN.
\<close>

definition ZAI_TOKEN_WINDOW_SECONDS :: "(string \<times> jsnum) list" where
  "ZAI_TOKEN_WINDOW_SECONDS = [(''3'', Fin 3600)]"

definition OBJECT_PROTOTYPE_KEYS :: "string list" where
  "OBJECT_PROTOTYPE_KEYS =
     [''constructor'', ''__defineGetter__'', ''__defineSetter__'', ''hasOwnProperty'',
      ''__lookupGetter__'', ''__lookupSetter__'', ''isPrototypeOf'', ''propertyIsEnumerable'',
      ''toString'', ''valueOf'', ''__proto__'', ''toLocaleString'']"

text \<open>The number of the table entry under a key; \<open>None\<close> when the entry is undefined.\<close>

definition zai_unit_seconds :: "string \<Rightarrow> jsnum option" where
  "zai_unit_seconds key =
     (case map_of ZAI_TOKEN_WINDOW_SECONDS key of
        Some unitSeconds \<Rightarrow> Some unitSeconds
      | None \<Rightarrow> if key \<in> set OBJECT_PROTOTYPE_KEYS then Some NaN else None)"

definition resolveWindowSeconds :: "world \<Rightarrow> jsval \<Rightarrow> js_exn + jsnum option" where
  "resolveWindowSeconds W limit =
     (if \<not> truthy limit \<or> \<not> truthy (get_prop limit ''number'') then Inr None
      else (case js_ToString W (get_prop limit ''unit'') of
              Inl e \<Rightarrow> Inl e
            | Inr key \<Rightarrow>
                (case zai_unit_seconds key of
                   None \<Rightarrow> Inr None
                 | Some unitSeconds \<Rightarrow>
                     map_exn (\<lambda>n. Some (js_mul unitSeconds n))
                       (js_ToNumber W (get_prop limit ''number'')))))"

definition resolveWindowLabel :: "world \<Rightarrow> jsnum option \<Rightarrow> string" where
  "resolveWindowLabel W seconds =
     (case seconds of
        None \<Rightarrow> ''tokens''
      | Some s \<Rightarrow>
          if \<not> truthy_num seconds then ''tokens''
          else if js_mod s (Fin 86400) = Fin 0
          then (let days = js_div s (Fin 86400)
                in if days = Fin 7 then ''weekly'' else stringOfNumber W days @ ''d'')
          else if js_mod s (Fin 3600) = Fin 0
          then stringOfNumber W (js_div s (Fin 3600)) @ ''h''
          else stringOfNumber W s @ ''s'')"

text \<open>The used percentage of the z.ai tokens window, as the fetcher computes it.\<close>

definition zaiUsedPercent :: "jsval \<Rightarrow> jsnum option" where
  "zaiUsedPercent tokensLimit =
     (case opt_prop tokensLimit ''percentage'' of JNum n \<Rightarrow> Some n | _ \<Rightarrow> None)"

definition zaiTokensLimit :: "jsval \<Rightarrow> jsval" where
  "zaiTokensLimit payload =
     (let limits = (case opt_prop (opt_prop payload ''data'') ''limits'' of
                      JArr ls \<Rightarrow> ls
                    | _ \<Rightarrow> [])
      in (case find (\<lambda>limit. opt_prop limit ''type'' = JStr ''TOKENS_LIMIT'') limits of
            Some limit \<Rightarrow> limit
          | None \<Rightarrow> JUndefined))"

definition zaiWindows :: "world \<Rightarrow> jsval \<Rightarrow> js_exn + windows" where
  "zaiWindows W payload =
     (let tokensLimit = zaiTokensLimit payload
      in (case resolveWindowSeconds W tokensLimit of
            Inl e \<Rightarrow> Inl e
          | Inr seconds \<Rightarrow>
              (let windowLabel = resolveWindowLabel W seconds;
                   ra = (if truthy (opt_prop tokensLimit ''nextResetTime'')
                         then normalizeTimestamp (get_prop tokensLimit ''nextResetTime'')
                         else None);
                   used = zaiUsedPercent tokensLimit
               in if truthy tokensLimit
                  then Inr (obj_set [] windowLabel (toUsageWindow W used seconds ra None))
                  else Inr [])))"

definition zaiApiKey :: "world \<Rightarrow> jsval" where
  "zaiApiKey W =
     (let entry = normalizeAuthEntry (getAuthEntry (readAuthFile W) [''zai-coding-plan'', ''zai'', ''z.ai''])
      in nullish_or (opt_prop entry ''key'') (opt_prop entry ''token''))"

definition zai_request :: "string \<Rightarrow> http_request" where
  "zai_request bearer =
     \<lparr>url = ''https://api.z.ai/api/monitor/usage/quota/limit'',
      http_method = ''GET'',
      headers = [(''Authorization'', ''Bearer '' @ bearer),
                 (''Content-Type'', ''application/json'')],
      body = NoBody\<rparr>"

definition zaiTry :: "world \<Rightarrow> jsval \<Rightarrow> js_exn + provider_result" where
  "zaiTry W apiKey =
     (case js_ToString W apiKey of
        Inl e \<Rightarrow> Inl e
      | Inr bearer \<Rightarrow>
          (case fetch W (zai_request bearer) of
             FetchThrows e \<Rightarrow> Inl e
           | Response status content \<Rightarrow>
               if \<not> response_ok status
               then Inr (buildResult W ''zai-coding-plan'' ''z.ai'' False True None
                           (Some (''API error: '' @ decimal status)))
               else (case content of
                       JsonThrows e \<Rightarrow> Inl e
                     | JsonValue payload \<Rightarrow>
                         (case zaiWindows W payload of
                            Inl e \<Rightarrow> Inl e
                          | Inr ws \<Rightarrow>
                              Inr (buildResult W ''zai-coding-plan'' ''z.ai'' True True
                                     (Some \<lparr>windows = ws, models = None\<rparr>) None)))))"

definition fetchZaiQuota :: "world \<Rightarrow> js_exn + provider_result" where
  "fetchZaiQuota W =
     (let apiKey = zaiApiKey W
      in if \<not> truthy apiKey
         then Inr (buildResult W ''zai-coding-plan'' ''z.ai'' False False None
                     (Some ''Not configured''))
         else (case zaiTry W apiKey of
                 Inl e \<Rightarrow>
                   Inr (buildResult W ''zai-coding-plan'' ''z.ai'' False True None
                          (Some (catch_message e)))
               | Inr r \<Rightarrow> Inr r))"

subsection \<open>NanoGPT\<close>

definition NANO_GPT_DAILY_WINDOW_SECONDS :: jsnum where
  "NANO_GPT_DAILY_WINDOW_SECONDS = Fin 86400"

text \<open>
  The used percentage of one tier (\<^verbatim>\<open>daily\<close> or \<^verbatim>\<open>monthly\<close>): the tier's
  \<^verbatim>\<open>percentUsed\<close> fraction when it is a number, else \<^verbatim>\<open>used / limit\<close> when both are
  numbers and the limit is positive.
\<close>

definition nanoTierUsed :: "world \<Rightarrow> jsval \<Rightarrow> string \<Rightarrow> jsnum option" where
  "nanoTierUsed W tier tierName =
     (case opt_prop tier ''percentUsed'' of
        JNum percentUsed \<Rightarrow> Some (clamp_percent (js_mul percentUsed (Fin 100)))
      | _ \<Rightarrow>
          (let used = toNumber W (opt_prop tier ''used'');
               limit = toNumber W (nullish_or (opt_prop tier ''limit'')
                                              (opt_prop (opt_prop tier ''limits'') tierName))
           in (case (used, limit) of
                 (Some u, Some l) \<Rightarrow>
                   if js_lt (Fin 0) l then Some (clamp_percent (js_mul (js_div u l) (Fin 100)))
                   else None
               | _ \<Rightarrow> None)))"

text \<open>
  The value label of a tier: the account state in brackets unless it is \<^verbatim>\<open>active\<close>; the
  template literal coerces the state, which may throw.
\<close>

definition nanoStateLabel :: "world \<Rightarrow> jsval \<Rightarrow> js_exn + string option" where
  "nanoStateLabel W state =
     (if state \<noteq> JStr ''active''
      then map_exn (\<lambda>s. Some (''('' @ s @ '')'')) (js_ToString W state)
      else Inr None)"

definition nanoGptWindows :: "world \<Rightarrow> jsval \<Rightarrow> js_exn + windows" where
  "nanoGptWindows W payload =
     (let period = nullish_or (opt_prop payload ''period'') JNull;
          daily = nullish_or (opt_prop payload ''daily'') JNull;
          monthly = nullish_or (opt_prop payload ''monthly'') JNull;
          state = nullish_or (opt_prop payload ''state'') (JStr ''active'')
      in (case (if truthy daily
                then map_exn
                       (\<lambda>label. obj_set [] ''daily''
                                  (toUsageWindow W (nanoTierUsed W daily ''daily'')
                                     (Some NANO_GPT_DAILY_WINDOW_SECONDS)
                                     (toTimestamp W (opt_prop daily ''resetAt'')) label))
                       (nanoStateLabel W state)
                else Inr []) of
            Inl e \<Rightarrow> Inl e
          | Inr w1 \<Rightarrow>
              if truthy monthly
              then map_exn
                     (\<lambda>label. obj_set w1 ''monthly''
                                (toUsageWindow W (nanoTierUsed W monthly ''monthly'') None
                                   (toTimestamp W (nullish_or (opt_prop monthly ''resetAt'')
                                                              (opt_prop period ''currentPeriodEnd'')))
                                   label))
                     (nanoStateLabel W state)
              else Inr w1))"

definition nanoGptTry :: "world \<Rightarrow> jsval \<Rightarrow> js_exn + provider_result" where
  "nanoGptTry W apiKey =
     (case js_ToString W apiKey of
        Inl e \<Rightarrow> Inl e
      | Inr bearer \<Rightarrow>
          (case fetch W \<lparr>url = ''https://nano-gpt.com/api/subscription/v1/usage'',
                         http_method = ''GET'',
                         headers = [(''Authorization'', ''Bearer '' @ bearer),
                                    (''Content-Type'', ''application/json'')],
                         body = NoBody\<rparr> of
             FetchThrows e \<Rightarrow> Inl e
           | Response status content \<Rightarrow>
               if \<not> response_ok status
               then Inr (buildResult W ''nano-gpt'' ''NanoGPT'' False True None
                           (Some (''API error: '' @ decimal status)))
               else (case content of
                       JsonThrows e \<Rightarrow> Inl e
                     | JsonValue payload \<Rightarrow>
                         (case nanoGptWindows W payload of
                            Inl e \<Rightarrow> Inl e
                          | Inr ws \<Rightarrow>
                              Inr (buildResult W ''nano-gpt'' ''NanoGPT'' True True
                                     (Some \<lparr>windows = ws, models = None\<rparr>) None)))))"

definition fetchNanoGptQuota :: "world \<Rightarrow> js_exn + provider_result" where
  "fetchNanoGptQuota W =
     (let entry = normalizeAuthEntry (getAuthEntry (readAuthFile W) [''nano-gpt'', ''nanogpt'', ''nano_gpt'']);
          apiKey = nullish_or (opt_prop entry ''key'') (opt_prop entry ''token'')
      in if \<not> truthy apiKey
         then Inr (buildResult W ''nano-gpt'' ''NanoGPT'' False False None (Some ''Not configured''))
         else (case nanoGptTry W apiKey of
                 Inl e \<Rightarrow>
                   Inr (buildResult W ''nano-gpt'' ''NanoGPT'' False True None (Some (catch_message e)))
               | Inr r \<Rightarrow> Inr r))"

subsection \<open>Google\<close>

definition ANTIGRAVITY_GOOGLE_CLIENT_ID :: string where
  "ANTIGRAVITY_GOOGLE_CLIENT_ID =
     ''1071006060591-tmhssin2h21lcre235vtolojh4g403ep.apps.googleusercontent.com''"

definition ANTIGRAVITY_GOOGLE_CLIENT_SECRET :: string where
  "ANTIGRAVITY_GOOGLE_CLIENT_SECRET = ''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''"

definition GEMINI_GOOGLE_CLIENT_ID :: string where
  "GEMINI_GOOGLE_CLIENT_ID =
     ''681255809395-oo8ft2oprdrnp9e3aqf6av3hmdib135j.apps.googleusercontent.com''"

definition GEMINI_GOOGLE_CLIENT_SECRET :: string where
  "GEMINI_GOOGLE_CLIENT_SECRET = ''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''"

definition DEFAULT_PROJECT_ID :: string where
  "DEFAULT_PROJECT_ID = ''rising-fact-p41fc''"

definition GOOGLE_FIVE_HOUR_WINDOW_SECONDS :: jsnum where
  "GOOGLE_FIVE_HOUR_WINDOW_SECONDS = Fin (5 * 60 * 60)"

definition GOOGLE_DAILY_WINDOW_SECONDS :: jsnum where
  "GOOGLE_DAILY_WINDOW_SECONDS = Fin (24 * 60 * 60)"

definition GOOGLE_PRIMARY_ENDPOINT :: string where
  "GOOGLE_PRIMARY_ENDPOINT = ''https://cloudcode-pa.googleapis.com''"

definition GOOGLE_ENDPOINTS :: "string list" where
  "GOOGLE_ENDPOINTS =
     [''https://daily-cloudcode-pa.sandbox.googleapis.com'',
      ''https://autopush-cloudcode-pa.sandbox.googleapis.com'',
      GOOGLE_PRIMARY_ENDPOINT]"

definition GOOGLE_HEADERS :: "(string \<times> string) list" where
  "GOOGLE_HEADERS =
     [(''User-Agent'', ''antigravity/1.11.5 windows/amd64''),
      (''X-Goog-Api-Client'', ''google-cloud-sdk vscode_cloudshelleditor/0.1''),
      (''Client-Metadata'',
       ''{\"ideType\":\"IDE_UNSPECIFIED\",\"platform\":\"PLATFORM_UNSPECIFIED\",\"pluginType\":\"GEMINI\"}'')]"

definition resolveGoogleWindow :: "world \<Rightarrow> string \<Rightarrow> jsnum option \<Rightarrow> string \<times> jsnum" where
  "resolveGoogleWindow W sid ra =
     (if sid = ''gemini'' then (''daily'', GOOGLE_DAILY_WINDOW_SECONDS)
      else if sid = ''antigravity''
      then (let remainingSeconds =
                  (case ra of
                     Some t \<Rightarrow> Some (js_max (Fin 0)
                                       (js_round (js_div (js_sub t (Fin (dateNow W))) (Fin 1000))))
                   | None \<Rightarrow> None)
            in (case remainingSeconds of
                  Some r \<Rightarrow> if js_lt (Fin (10 * 60 * 60)) r
                            then (''daily'', GOOGLE_DAILY_WINDOW_SECONDS)
                            else (''5h'', GOOGLE_FIVE_HOUR_WINDOW_SECONDS)
                | None \<Rightarrow> (''5h'', GOOGLE_FIVE_HOUR_WINDOW_SECONDS)))
      else (''daily'', GOOGLE_DAILY_WINDOW_SECONDS))"

definition resolveGoogleOAuthClient :: "string \<Rightarrow> string \<times> string" where
  "resolveGoogleOAuthClient sid =
     (if sid = ''gemini'' then (GEMINI_GOOGLE_CLIENT_ID, GEMINI_GOOGLE_CLIENT_SECRET)
      else (ANTIGRAVITY_GOOGLE_CLIENT_ID, ANTIGRAVITY_GOOGLE_CLIENT_SECRET))"

text \<open>
  \<^verbatim>\<open>refreshGoogleAccessToken\<close> has no \<^verbatim>\<open>try\<close>: an exception of the conversion of the
  refresh token into a form field, of \<^verbatim>\<open>fetch\<close> or of \<^verbatim>\<open>response.json()\<close> leaves the
  function.
\<close>

definition refreshGoogleAccessToken ::
  "world \<Rightarrow> jsval \<Rightarrow> string \<Rightarrow> string \<Rightarrow> js_exn + jsval" where
  "refreshGoogleAccessToken W rt clientId clientSecret =
     (case js_ToString W rt of
        Inl e \<Rightarrow> Inl e
      | Inr refresh_token \<Rightarrow>
          (case fetch W \<lparr>url = ''https://oauth2.googleapis.com/token'',
                         http_method = ''POST'',
                         headers = [(''Content-Type'', ''application/x-www-form-urlencoded'')],
                         body = FormBody [(''client_id'', clientId),
                                          (''client_secret'', clientSecret),
                                          (''refresh_token'', refresh_token),
                                          (''grant_type'', ''refresh_token'')]\<rparr> of
             FetchThrows e \<Rightarrow> Inl e
           | Response status content \<Rightarrow>
               if \<not> response_ok status then Inr JNull
               else (case content of
                       JsonThrows e \<Rightarrow> Inl e
                     | JsonValue response_data \<Rightarrow>
                         Inr (case opt_prop response_data ''access_token'' of
                                JStr t \<Rightarrow> JStr t
                              | _ \<Rightarrow> JNull))))"

definition project_body :: "jsval \<Rightarrow> req_body" where
  "project_body project =
     JsonBody (if truthy project then JObj [(''project'', project)] else JObj [])"

text \<open>
  \<^verbatim>\<open>fetchGoogleQuotaBuckets\<close>: everything after the body is built, the template literal of
  the header included, is inside its \<^verbatim>\<open>try\<close>, whose \<^verbatim>\<open>catch\<close> returns null.
\<close>

definition fetchGoogleQuotaBuckets :: "world \<Rightarrow> jsval \<Rightarrow> jsval \<Rightarrow> jsval" where
  "fetchGoogleQuotaBuckets W token project =
     (case js_ToString W token of
        Inl e \<Rightarrow> JNull
      | Inr bearer \<Rightarrow>
          (case fetch W \<lparr>url = GOOGLE_PRIMARY_ENDPOINT @ ''/v1internal:retrieveUserQuota'',
                         http_method = ''POST'',
                         headers = [(''Authorization'', ''Bearer '' @ bearer),
                                    (''Content-Type'', ''application/json'')],
                         body = project_body project\<rparr> of
             FetchThrows e \<Rightarrow> JNull
           | Response status content \<Rightarrow>
               if \<not> response_ok status then JNull
               else (case content of JsonThrows e \<Rightarrow> JNull | JsonValue v \<Rightarrow> v)))"

definition models_request :: "string \<Rightarrow> jsval \<Rightarrow> string \<Rightarrow> http_request" where
  "models_request bearer project endpoint =
     \<lparr>url = endpoint @ ''/v1internal:fetchAvailableModels'',
      http_method = ''POST'',
      headers = [(''Authorization'', ''Bearer '' @ bearer),
                 (''Content-Type'', ''application/json'')] @ GOOGLE_HEADERS,
      body = project_body project\<rparr>"

text \<open>
  The loop of \<^verbatim>\<open>fetchGoogleModels\<close> over the endpoints that are left. The \<^verbatim>\<open>try\<close> of one
  pass holds the request (with the template literal of its header) and the reading of the
  body; its \<^verbatim>\<open>catch\<close> goes on with the next endpoint.
\<close>

fun fetchGoogleModels_loop :: "world \<Rightarrow> jsval \<Rightarrow> jsval \<Rightarrow> string list \<Rightarrow> jsval" where
  "fetchGoogleModels_loop W token project [] = JNull"
| "fetchGoogleModels_loop W token project (endpoint # endpoints) =
     (case js_ToString W token of
        Inl e \<Rightarrow> fetchGoogleModels_loop W token project endpoints
      | Inr bearer \<Rightarrow>
          (case fetch W (models_request bearer project endpoint) of
             FetchThrows e \<Rightarrow> fetchGoogleModels_loop W token project endpoints
           | Response status content \<Rightarrow>
               if response_ok status
               then (case content of
                       JsonThrows e \<Rightarrow> fetchGoogleModels_loop W token project endpoints
                     | JsonValue v \<Rightarrow> v)
               else fetchGoogleModels_loop W token project endpoints))"

definition fetchGoogleModels :: "world \<Rightarrow> jsval \<Rightarrow> jsval \<Rightarrow> jsval" where
  "fetchGoogleModels W token project = fetchGoogleModels_loop W token project GOOGLE_ENDPOINTS"

type_synonym model_map = "(string \<times> model_windows) list"

definition scoped_name :: "string \<Rightarrow> string \<Rightarrow> string" where
  "scoped_name sid name = (if startsWith name (sid @ ''/'') then name else sid @ ''/'' @ name)"

definition used_of_remaining :: "jsnum option \<Rightarrow> jsnum option" where
  "used_of_remaining remainingFraction =
     (case remainingFraction of
        Some f \<Rightarrow> Some (js_max (Fin 0) (js_sub (Fin 100) (js_round (js_mul f (Fin 100)))))
      | None \<Rightarrow> None)"

definition model_entry :: "world \<Rightarrow> string \<Rightarrow> jsnum option \<Rightarrow> jsnum option \<Rightarrow> model_windows" where
  "model_entry W sid used ra =
     (let window = resolveGoogleWindow W sid ra
      in \<lparr>mw_windows = [(fst window, toUsageWindow W used (Some (snd window)) ra None)]\<rparr>)"

text \<open>One bucket of the quota payload: skipped (\<open>None\<close>) without a model id.\<close>

definition bucketEntry :: "world \<Rightarrow> auth_source \<Rightarrow> jsval \<Rightarrow> (string \<times> model_windows) option" where
  "bucketEntry W source bucket =
     (case asNonEmptyString (opt_prop bucket ''modelId'') of
        JStr modelId \<Rightarrow>
          Some (scoped_name (sourceId source) modelId,
                model_entry W (sourceId source)
                  (used_of_remaining (toNumber W (opt_prop bucket ''remainingFraction'')))
                  (toTimestamp W (opt_prop bucket ''resetTime'')))
      | _ \<Rightarrow> None)"

text \<open>
  One entry of \<^verbatim>\<open>payload.models\<close>. \<^verbatim>\<open>new Date(resetTime)\<close> may throw, and no \<^verbatim>\<open>try\<close>
  is around it.
\<close>

definition modelEntry ::
  "world \<Rightarrow> auth_source \<Rightarrow> string \<times> jsval \<Rightarrow> js_exn + string \<times> model_windows" where
  "modelEntry W source e =
     (let modelName = fst e;
          modelData = snd e;
          quotaInfo = opt_prop modelData ''quotaInfo'';
          remainingFraction = (case opt_prop quotaInfo ''remainingFraction'' of
                                 JNum n \<Rightarrow> Some n
                               | _ \<Rightarrow> None)
      in (case (if truthy (opt_prop quotaInfo ''resetTime'')
                then map_exn Some (date_getTime W (opt_prop quotaInfo ''resetTime''))
                else Inr None) of
            Inl ex \<Rightarrow> Inl ex
          | Inr ra \<Rightarrow>
              Inr (scoped_name (sourceId source) modelName,
                   model_entry W (sourceId source) (used_of_remaining remainingFraction) ra)))"

text \<open>
  \<^verbatim>\<open>Object.entries\<close>: the entries of an object (kept with distinct keys), the indexed
  elements of an array or of a string, nothing for the other values.
\<close>

fun js_entries :: "jsval \<Rightarrow> (string \<times> jsval) list" where
  "js_entries (JObj kvs) = kvs"
| "js_entries (JArr xs) = zip (map decimal [0..<length xs]) xs"
| "js_entries (JStr s) = zip (map decimal [0..<length s]) (map (\<lambda>c. JStr [c]) s)"
| "js_entries v = []"

text \<open>The two inner loops: every merged entry sets \<^verbatim>\<open>mergedAnyModel\<close>.\<close>

definition mergeBuckets ::
  "world \<Rightarrow> auth_source \<Rightarrow> jsval list \<Rightarrow> model_map \<times> bool \<Rightarrow> model_map \<times> bool" where
  "mergeBuckets W source buckets st =
     fold (\<lambda>bucket (ms, merged).
             case bucketEntry W source bucket of
               None \<Rightarrow> (ms, merged)
             | Some (name, entry) \<Rightarrow> (obj_set ms name entry, True))
          buckets st"

fun mergeModels ::
  "world \<Rightarrow> auth_source \<Rightarrow> (string \<times> jsval) list \<Rightarrow> model_map \<times> bool
     \<Rightarrow> js_exn + model_map \<times> bool" where
  "mergeModels W source [] st = Inr st"
| "mergeModels W source (e # entries) st =
     (case modelEntry W source e of
        Inl ex \<Rightarrow> Inl ex
      | Inr (name, entry) \<Rightarrow> mergeModels W source entries (obj_set (fst st) name entry, True))"

text \<open>
  The access token a source ends up with before its quota is read: the stored one, or the
  outcome of the refresh exchange when there is none or it has expired. \<open>Inr None\<close> is the
  \<^verbatim>\<open>continue\<close> of a source without refresh token.
\<close>

definition needs_refresh :: "world \<Rightarrow> auth_source \<Rightarrow> bool" where
  "needs_refresh W source =
     (\<not> truthy (accessToken source)
      \<or> (case expires source of Some e \<Rightarrow> js_le e (Fin (dateNow W)) | None \<Rightarrow> False))"

definition sourceAccessToken :: "world \<Rightarrow> auth_source \<Rightarrow> js_exn + jsval option" where
  "sourceAccessToken W source =
     (if needs_refresh W source
      then (if \<not> truthy (refreshToken source) then Inr None
            else (case refreshGoogleAccessToken W (refreshToken source)
                         (fst (resolveGoogleOAuthClient (sourceId source)))
                         (snd (resolveGoogleOAuthClient (sourceId source))) of
                    Inl e \<Rightarrow> Inl e
                  | Inr t \<Rightarrow> Inr (Some t)))
      else Inr (Some (accessToken source)))"

text \<open>What one source merges into the models, given its access token.\<close>

definition mergeSource ::
  "world \<Rightarrow> auth_source \<Rightarrow> jsval \<Rightarrow> model_map \<Rightarrow> js_exn + model_map \<times> bool" where
  "mergeSource W source token ms =
     (let project = nullish_or (projectId source) (JStr DEFAULT_PROJECT_ID);
          st1 = (if sourceId source = ''gemini''
                 then (let quotaPayload = fetchGoogleQuotaBuckets W token project;
                           buckets = (case opt_prop quotaPayload ''buckets'' of
                                        JArr bs \<Rightarrow> bs
                                      | _ \<Rightarrow> [])
                       in mergeBuckets W source buckets (ms, False))
                 else (ms, False));
          payload = fetchGoogleModels W token project
      in if truthy payload
         then mergeModels W source
                (js_entries (nullish_or (get_prop payload ''models'') (JObj []))) st1
         else Inr st1)"

text \<open>The body of the loop over the sources, on the pair \<^verbatim>\<open>(models, sourceErrors)\<close>.\<close>

definition googleSourceStep ::
  "world \<Rightarrow> auth_source \<Rightarrow> model_map \<times> string list \<Rightarrow> js_exn + (model_map \<times> string list)" where
  "googleSourceStep W source st =
     (case sourceAccessToken W source of
        Inl e \<Rightarrow> Inl e
      | Inr None \<Rightarrow> Inr (fst st, snd st @ [sourceLabel source @ '': Missing refresh token''])
      | Inr (Some token) \<Rightarrow>
          if \<not> truthy token
          then Inr (fst st, snd st @ [sourceLabel source @ '': Failed to refresh OAuth token''])
          else (case mergeSource W source token (fst st) of
                  Inl e \<Rightarrow> Inl e
                | Inr merged \<Rightarrow>
                    if \<not> snd merged
                    then Inr (fst merged, snd st @ [sourceLabel source @ '': Failed to fetch models''])
                    else Inr (fst merged, snd st)))"

fun googleSources ::
  "world \<Rightarrow> auth_source list \<Rightarrow> model_map \<times> string list \<Rightarrow> js_exn + (model_map \<times> string list)" where
  "googleSources W [] st = Inr st"
| "googleSources W (source # sources) st =
     (case googleSourceStep W source st of
        Inl e \<Rightarrow> Inl e
      | Inr st' \<Rightarrow> googleSources W sources st')"

text \<open>\<^verbatim>\<open>fetchGoogleQuota\<close> on the sources that \<^verbatim>\<open>resolveGoogleAuthSources\<close> gave.\<close>

definition fetchGoogleQuota_of :: "world \<Rightarrow> auth_source list \<Rightarrow> js_exn + provider_result" where
  "fetchGoogleQuota_of W authSources =
     (if authSources = []
      then Inr (buildResult W ''google'' ''Google'' False False None (Some ''Not configured''))
      else (case googleSources W authSources ([], []) of
              Inl e \<Rightarrow> Inl e
            | Inr (ms, sourceErrors) \<Rightarrow>
                if ms = []
                then Inr (buildResult W ''google'' ''Google'' False True None
                            (Some (case sourceErrors of
                                     e # es \<Rightarrow> e
                                   | [] \<Rightarrow> ''Failed to fetch models'')))
                else Inr (buildResult W ''google'' ''Google'' True True
                            (Some \<lparr>windows = [], models = Some ms\<rparr>) None)))"

definition fetchGoogleQuota :: "world \<Rightarrow> js_exn + provider_result" where
  "fetchGoogleQuota W = fetchGoogleQuota_of W (resolveGoogleAuthSources W)"

section \<open>Dispatch facade\<close>

definition fetchQuotaForProvider :: "world \<Rightarrow> string \<Rightarrow> js_exn + provider_result" where
  "fetchQuotaForProvider W pid =
     (if pid = ''claude'' then fetchClaudeQuota W
      else if pid = ''codex'' then fetchCodexQuota W
      else if pid = ''github-copilot'' then fetchCopilotQuota W
      else if pid = ''github-copilot-addon'' then fetchCopilotAddonQuota W
      else if pid = ''google'' then fetchGoogleQuota W
      else if pid = ''kimi-for-coding'' then fetchKimiQuota W
      else if pid = ''nano-gpt'' then fetchNanoGptQuota W
      else if pid = ''openrouter'' then fetchOpenRouterQuota W
      else if pid = ''zai-coding-plan'' then fetchZaiQuota W
      else Inr (buildResult W pid pid False False None (Some ''Unsupported provider'')))"

section \<open>Notions of the specification\<close>

text \<open>
  What one candidate host of the model listing yields, in the words of the specification:
  the parsed JSON body of a 2xx answer to the POST of the project to the given URL, with the
  bearer token and the client headers; nothing when the request throws (network failure,
  timeout), when the status is not 2xx, or when reading the body throws.
\<close>

definition endpoint_json :: "world \<Rightarrow> jsval \<Rightarrow> jsval \<Rightarrow> string \<Rightarrow> jsval option" where
  "endpoint_json W token project address =
     (case js_ToString W token of
        Inl e \<Rightarrow> None
      | Inr bearer \<Rightarrow>
          (case fetch W
                  \<lparr>url = address,
                   http_method = ''POST'',
                   headers =
                     [(''Authorization'', ''Bearer '' @ bearer),
                      (''Content-Type'', ''application/json''),
                      (''User-Agent'', ''antigravity/1.11.5 windows/amd64''),
                      (''X-Goog-Api-Client'', ''google-cloud-sdk vscode_cloudshelleditor/0.1''),
                      (''Client-Metadata'',
                       ''{\"ideType\":\"IDE_UNSPECIFIED\",\"platform\":\"PLATFORM_UNSPECIFIED\",\"pluginType\":\"GEMINI\"}'')],
                   body = JsonBody (if truthy project then JObj [(''project'', project)] else JObj [])\<rparr> of
             FetchThrows e \<Rightarrow> None
           | Response status content \<Rightarrow>
               if response_ok status
               then (case content of JsonThrows e \<Rightarrow> None | JsonValue v \<Rightarrow> Some v)
               else None))"

text \<open>The snapshot of a Copilot payload under a key of \<^verbatim>\<open>quota_snapshots\<close>.\<close>

definition copilot_snapshot :: "jsval \<Rightarrow> string \<Rightarrow> jsval" where
  "copilot_snapshot payload key =
     get_prop (nullish_or (opt_prop payload ''quota_snapshots'') (JObj [])) key"

text \<open>
  The model entries one source obtains with an access token, in the order the fetcher merges
  them: those of the quota buckets (for the \<^verbatim>\<open>gemini\<close> source only), then those of the
  model listing; or the exception that building an entry of the listing throws.
\<close>

definition sourceEntries ::
  "world \<Rightarrow> auth_source \<Rightarrow> jsval \<Rightarrow> js_exn + (string \<times> model_windows) list" where
  "sourceEntries W source token =
     (let project = nullish_or (projectId source) (JStr DEFAULT_PROJECT_ID);
          payload = fetchGoogleModels W token project;
          fromBuckets =
            (if sourceId source = ''gemini''
             then List.map_filter (bucketEntry W source)
                    (case opt_prop (fetchGoogleQuotaBuckets W token project) ''buckets'' of
                       JArr bs \<Rightarrow> bs
                     | _ \<Rightarrow> [])
             else [])
      in map_exn ((@) fromBuckets)
           (if truthy payload
            then collect (map (modelEntry W source)
                            (js_entries (nullish_or (get_prop payload ''models'') (JObj []))))
            else Inr []))"

text \<open>
  What a source contributes to the merged models: nothing when it has no access token to use
  and no refresh token, nothing when the refresh exchange gives no token, else its entries.
\<close>

definition sourceYield :: "world \<Rightarrow> auth_source \<Rightarrow> (string \<times> model_windows) list" where
  "sourceYield W source =
     (case sourceAccessToken W source of
        Inr (Some token) \<Rightarrow>
          if truthy token
          then (case sourceEntries W source token of Inr es \<Rightarrow> es | Inl e \<Rightarrow> [])
          else []
      | _ \<Rightarrow> [])"

text \<open>The assignments \<^verbatim>\<open>models[name] = entry\<close> of a list of entries, in order.\<close>

definition assign_all :: "(string \<times> 'a) list \<Rightarrow> (string \<times> 'a) list \<Rightarrow> (string \<times> 'a) list" where
  "assign_all entries ms = fold (\<lambda>e m. obj_set m (fst e) (snd e)) entries ms"

text \<open>
  The error field agrees with the ok flag: a successful result has no error, and an error
  that is present is a non-empty string on a failed result.
\<close>

definition error_consistent :: "provider_result \<Rightarrow> bool" where
  "error_consistent r =
     ((ok r \<longrightarrow> error r = None) \<and> (\<forall>e. error r = Some e \<longrightarrow> e \<noteq> [] \<and> \<not> ok r))"

section \<open>Example worlds\<close>

text \<open>
  Concrete worlds for the closed examples below. In \<open>offline_world\<close> the credential store
  is empty, no account file exists and every request fails; the examples override what they
  need. The built-ins of the host are stubs: no example below reaches them.
\<close>

definition offline_world :: world where
  "offline_world =
     \<lparr>readAuthFile = [],
      readJsonFile = (\<lambda>p. JNull),
      fetch = (\<lambda>r. FetchThrows (JsError ''fetch failed'')),
      dateNow = 1700000000000,
      numberOfString = (\<lambda>s. NaN),
      stringOfNumber = (\<lambda>n. ''NaN''),
      dateParse = (\<lambda>s. NaN),
      toDateString = (\<lambda>n. ''Invalid Date''),
      toLocaleTimeString = (\<lambda>n. None),
      toLocaleString = (\<lambda>n. None),
      typeErrorMessage = ''Cannot convert object to primitive value''\<rparr>"

text \<open>
  Scenario E of the specification: the first two model endpoints answer 503 and 404, the
  third answers 200.
\<close>

definition third_endpoint_world :: world where
  "third_endpoint_world =
     offline_world
       \<lparr>fetch := (\<lambda>r. if url r = ''https://daily-cloudcode-pa.sandbox.googleapis.com/v1internal:fetchAvailableModels''
                       then Response 503 (JsonValue (JStr ''unavailable''))
                       else if url r = ''https://autopush-cloudcode-pa.sandbox.googleapis.com/v1internal:fetchAvailableModels''
                       then Response 404 (JsonValue (JStr ''not found''))
                       else if url r = ''https://cloudcode-pa.googleapis.com/v1internal:fetchAvailableModels''
                       then Response 200 (JsonValue (JObj [(''models'', JObj [])]))
                       else FetchThrows (JsError ''fetch failed''))\<rparr>"

text \<open>
  The first model endpoint cannot be reached, the second and the third answer 200 with
  different bodies.
\<close>

definition second_endpoint_world :: world where
  "second_endpoint_world =
     offline_world
       \<lparr>fetch := (\<lambda>r. if url r = ''https://autopush-cloudcode-pa.sandbox.googleapis.com/v1internal:fetchAvailableModels''
                       then Response 200 (JsonValue (JObj [(''models'', JObj [(''from-autopush'', JObj [])])]))
                       else if url r = ''https://cloudcode-pa.googleapis.com/v1internal:fetchAvailableModels''
                       then Response 200 (JsonValue (JObj [(''models'', JObj [(''from-primary'', JObj [])])]))
                       else FetchThrows (JsError ''fetch failed''))\<rparr>"

text \<open>A Copilot payload whose chat snapshot has an entitlement of 0 and 5 remaining.\<close>

definition zero_entitlement_payload :: jsval where
  "zero_entitlement_payload =
     JObj [(''quota_snapshots'',
            JObj [(''chat'', JObj [(''entitlement'', JNum (Fin 0)), (''remaining'', JNum (Fin 5))])])]"

text \<open>
  A z.ai world: a stored API key, and the quota endpoint answering 200 with the given payload.
  The first payload has a tokens limit with usage counts and no \<^verbatim>\<open>percentage\<close>; the second
  has a \<^verbatim>\<open>percentage\<close> of 25; the third has a \<^verbatim>\<open>percentage\<close> of 10 and a unit that is an
  object with an own property \<^verbatim>\<open>toString\<close>, which cannot be made a property key.
\<close>

definition zai_ratio_payload :: jsval where
  "zai_ratio_payload =
     JObj [(''data'',
            JObj [(''limits'',
                   JArr [JObj [(''type'', JStr ''TOKENS_LIMIT''),
                               (''usage'', JNum (Fin 1000)),
                               (''currentValue'', JNum (Fin 250)),
                               (''remaining'', JNum (Fin 750))]])])]"

definition zai_percentage_payload :: jsval where
  "zai_percentage_payload =
     JObj [(''data'',
            JObj [(''limits'',
                   JArr [JObj [(''type'', JStr ''TOKENS_LIMIT''),
                               (''usage'', JNum (Fin 1000)),
                               (''currentValue'', JNum (Fin 250)),
                               (''percentage'', JNum (Fin 25))]])])]"

definition zai_unit_object_payload :: jsval where
  "zai_unit_object_payload =
     JObj [(''data'',
            JObj [(''limits'',
                   JArr [JObj [(''type'', JStr ''TOKENS_LIMIT''),
                               (''number'', JNum (Fin 1)),
                               (''unit'', JObj [(''toString'', JNum (Fin 1))]),
                               (''percentage'', JNum (Fin 10))]])])]"

definition zai_world :: "jsval \<Rightarrow> world" where
  "zai_world payload =
     offline_world
       \<lparr>readAuthFile := [(''zai-coding-plan'', JObj [(''key'', JStr ''zk-1'')])],
        fetch := (\<lambda>r. if url r = ''https://api.z.ai/api/monitor/usage/quota/limit''
                       then Response 200 (JsonValue payload)
                       else FetchThrows (JsError ''fetch failed''))\<rparr>"

text \<open>A stored Claude token, and a request that throws an \<^verbatim>\<open>Error\<close> whose message is empty.\<close>

definition empty_message_world :: world where
  "empty_message_world =
     offline_world
       \<lparr>readAuthFile := [(''anthropic'', JStr ''sk-ant-oat'')],
        fetch := (\<lambda>r. FetchThrows (JsError ''''))\<rparr>"

text \<open>
  A stored Google entry with a refresh token and no access token. In the first world the
  token endpoint cannot be reached (\<^verbatim>\<open>fetch\<close> throws); in the second it answers 200 with a
  body that is not JSON (\<^verbatim>\<open>response.json()\<close> throws).
\<close>

definition google_refresh_world :: world where
  "google_refresh_world =
     offline_world \<lparr>readAuthFile := [(''google'', JObj [(''refresh'', JStr ''1//refresh'')])]\<rparr>"

definition google_badjson_world :: world where
  "google_badjson_world =
     offline_world
       \<lparr>readAuthFile := [(''google'', JObj [(''refresh'', JStr ''1//refresh'')])],
        fetch := (\<lambda>r. Response 200 (JsonThrows (JsError ''Unexpected token < in JSON at position 0'')))\<rparr>"

text \<open>A stored Claude entry whose \<^verbatim>\<open>access\<close> is the empty string and whose \<^verbatim>\<open>token\<close> is set.\<close>

definition empty_access_world :: world where
  "empty_access_world =
     offline_world
       \<lparr>readAuthFile := [(''anthropic'', JObj [(''access'', JStr ''''), (''token'', JStr ''sk-ant-oat'')])]\<rparr>"

text \<open>
  Two Google sources. The stored Gemini entry has an access token that expired and no refresh
  token; the Antigravity account file has a refresh token, the token endpoint answers with
  an access token, and the first model endpoint lists one model with half of its quota left.
\<close>

definition two_source_world :: world where
  "two_source_world =
     offline_world
       \<lparr>readAuthFile := [(''google'', JObj [(''access'', JStr ''stale''), (''expires'', JNum (Fin 1))])],
        readJsonFile := (\<lambda>p. if p = ''~/.config/opencode/antigravity-accounts.json''
                              then JObj [(''accounts'', JArr [JObj [(''refreshToken'', JStr ''rt-a'')]])]
                              else JNull),
        fetch := (\<lambda>r. if url r = ''https://oauth2.googleapis.com/token''
                       then Response 200 (JsonValue (JObj [(''access_token'', JStr ''at-a'')]))
                       else if url r = ''https://daily-cloudcode-pa.sandbox.googleapis.com/v1internal:fetchAvailableModels''
                       then Response 200
                              (JsonValue
                                 (JObj [(''models'',
                                         JObj [(''gemini-3-pro'',
                                                JObj [(''quotaInfo'',
                                                       JObj [(''remainingFraction'', JNum (Fin (1 / 2)))])])])]))
                       else FetchThrows (JsError ''fetch failed''))\<rparr>"

definition stale_gemini_source :: auth_source where
  "stale_gemini_source =
     \<lparr>sourceId = ''gemini'', sourceLabel = ''Gemini'', accessToken = JStr ''stale'',
      refreshToken = JNull, projectId = JNull, expires = Some (Fin 1000), email = JUndefined\<rparr>"

definition antigravity_source :: auth_source where
  "antigravity_source =
     \<lparr>sourceId = ''antigravity'', sourceLabel = ''Antigravity'', accessToken = JUndefined,
      refreshToken = JStr ''rt-a'', projectId = JNull, expires = None, email = JUndefined\<rparr>"

definition half_used_window :: usage_window where
  "half_used_window =
     \<lparr>usedPercent = Some (Fin 50), remainingPercent = Some (Fin 50),
      windowSeconds = Some (Fin 18000), resetAfterSeconds = None, resetAt = None,
      resetAtFormatted = None, resetAfterFormatted = None, valueLabel = None\<rparr>"

text \<open>
  Two Google sources again. The stored Gemini entry has a live access token, and the first
  model endpoint lists one model with half of its quota left; the Antigravity account file
  has a refresh token, and the token endpoint cannot be reached.
\<close>

definition gemini_then_throw_world :: world where
  "gemini_then_throw_world =
     offline_world
       \<lparr>readAuthFile := [(''google'', JObj [(''access'', JStr ''ya29.live'')])],
        readJsonFile := (\<lambda>p. if p = ''~/.config/opencode/antigravity-accounts.json''
                              then JObj [(''accounts'', JArr [JObj [(''refreshToken'', JStr ''rt-a'')]])]
                              else JNull),
        fetch := (\<lambda>r. if url r = ''https://daily-cloudcode-pa.sandbox.googleapis.com/v1internal:fetchAvailableModels''
                       then Response 200
                              (JsonValue
                                 (JObj [(''models'',
                                         JObj [(''gemini-3-pro'',
                                                JObj [(''quotaInfo'',
                                                       JObj [(''remainingFraction'', JNum (Fin (1 / 2)))])])])]))
                       else FetchThrows (JsError ''fetch failed''))\<rparr>"

definition live_gemini_source :: auth_source where
  "live_gemini_source =
     \<lparr>sourceId = ''gemini'', sourceLabel = ''Gemini'', accessToken = JStr ''ya29.live'',
      refreshToken = JNull, projectId = JNull, expires = None, email = JUndefined\<rparr>"

definition half_used_daily_window :: usage_window where
  "half_used_daily_window =
     \<lparr>usedPercent = Some (Fin 50), remainingPercent = Some (Fin 50),
      windowSeconds = Some (Fin 86400), resetAfterSeconds = None, resetAt = None,
      resetAtFormatted = None, resetAfterFormatted = None, valueLabel = None\<rparr>"

section \<open>Rounding to binary64\<close>

lemma round_half_even_of_int: "round_half_even (of_int z) = z"
  by (simp add: round_half_even_def)

lemma round_half_even_ge_floor: "\<lfloor>x\<rfloor> \<le> round_half_even x"
  by (simp add: round_half_even_def Let_def)

lemma binary64_not_NaN: "binary64 x \<noteq> NaN"
  by (simp add: binary64_def Let_def)

text \<open>An integer up to \<^verbatim>\<open>2^53\<close> in magnitude is a double: rounding leaves it as it is.\<close>

lemma binary64_of_int:
  assumes "\<bar>n\<bar> \<le> 2 ^ 53"
  shows "binary64 (of_int n) = Fin (of_int n)"
proof (cases "n = 0")
  case True
  then show ?thesis by (simp add: binary64_def)
next
  case False
  define a :: real where "a = \<bar>of_int n\<bar>"
  have a0: "a = of_int \<bar>n\<bar>" by (simp add: a_def)
  have a1: "1 \<le> a" using False by (simp add: a_def)
  have a2: "a \<le> 2 ^ 53"
  proof -
    have "(of_int \<bar>n\<bar> :: real) \<le> of_int (2 ^ 53)" using assms by (simp only: of_int_le_iff)
    then show ?thesis by (simp add: a0)
  qed
  define e where "e = \<lfloor>log 2 a\<rfloor>"
  have e0: "0 \<le> e" using a1 by (simp add: e_def)
  have l53: "log 2 a \<le> 53"
    using a1 a2 by (simp add: log_le_iff)
  then have e53: "e \<le> 53" unfolding e_def by linarith
  have emax: "max e (- 1022) = e" using e0 by simp
  have ex: "\<exists>z :: int. a / (2 powi (e - 52)) = of_int z"
  proof (cases "e \<le> 52")
    case True
    then have "e - 52 = - int (nat (52 - e))" by simp
    then have "(2::real) powi (e - 52) = inverse (2 ^ nat (52 - e))"
      by (simp only: power_int_minus power_int_of_nat)
    then have "a / (2 powi (e - 52)) = of_int (\<bar>n\<bar> * 2 ^ nat (52 - e))"
      by (simp add: a0 field_simps)
    then show ?thesis by blast
  next
    case False
    with e53 have e: "e = 53" by simp
    then have "53 \<le> log 2 a" unfolding e_def by linarith
    then have "2 ^ 53 \<le> a" using a1 by (simp add: le_log_iff)
    with a2 have "a = 2 ^ 53" by simp
    with e have "a / (2 powi (e - 52)) = of_int (2 ^ 52)" by simp
    then show ?thesis by blast
  qed
  then obtain z :: int where z: "a / (2 powi (e - 52)) = of_int z" by blast
  have q0: "(2::real) powi (e - 52) \<noteq> 0" by simp
  have y: "of_int (round_half_even (a / (2 powi (e - 52)))) * (2 powi (e - 52)) = a"
    using z q0 by (simp add: round_half_even_of_int field_simps)
  have small: "\<not> (2::real) ^ 1024 \<le> a"
  proof -
    have "(2::real) ^ 53 < 2 ^ 1024" by (rule power_strict_increasing) simp_all
    with a2 show ?thesis by linarith
  qed
  have nz: "(of_int n :: real) \<noteq> 0" using False by simp
  have "binary64 (of_int n) = Fin (if (of_int n :: real) < 0 then - a else a)"
    using nz y small
    by (simp only: binary64_def Let_def a_def [symmetric] e_def [symmetric] emax if_False)
  also have "(if (of_int n :: real) < 0 then - a else a) = of_int n"
    by (simp add: a_def)
  finally show ?thesis .
qed

lemma binary64_numeral [simp]:
  "numeral k \<le> (2 :: int) ^ 53 \<Longrightarrow> binary64 (numeral k) = Fin (numeral k)"
  using binary64_of_int [of "numeral k"] by simp

lemma binary64_neg_numeral [simp]:
  "numeral k \<le> (2 :: int) ^ 53 \<Longrightarrow> binary64 (- numeral k) = Fin (- numeral k)"
  using binary64_of_int [of "- numeral k"] by simp

lemma binary64_zero [simp]: "binary64 0 = Fin 0"
  by (simp add: binary64_def)

lemma binary64_one [simp]: "binary64 1 = Fin 1"
  using binary64_of_int [of 1] by simp

text \<open>A value of magnitude \<^verbatim>\<open>2^1024\<close> or more overflows.\<close>

lemma binary64_overflow:
  assumes "2 ^ 1024 \<le> \<bar>x\<bar>"
  shows "binary64 x = (if x < 0 then NegInf else PosInf)"
proof -
  define a :: real where "a = \<bar>x\<bar>"
  have big: "2 ^ 1024 \<le> a" using assms by (simp add: a_def)
  then have a0: "0 < a" by (smt (verit) zero_less_power)
  have nz: "x \<noteq> 0" using a0 by (auto simp: a_def)
  define e where "e = \<lfloor>log 2 a\<rfloor>"
  have "1024 \<le> log 2 a" using big a0 by (simp add: le_log_iff)
  then have e1024: "1024 \<le> e" unfolding e_def by linarith
  have emax: "max e (- 1022) = e" using e1024 by simp
  have "real_of_int e \<le> log 2 a" unfolding e_def by simp
  then have "2 powr (real_of_int e) \<le> a" using a0 by (simp add: le_log_iff)
  then have pe: "2 powi e \<le> a" using e1024 by (simp add: powr_real_of_int power_int_def)
  define q :: real where "q = 2 powi (e - 52)"
  have q0: "0 < q" by (simp add: q_def)
  have split: "(2::real) powi e = 2 ^ 52 * q"
  proof -
    have "(2::real) powi e = 2 powi (52 + (e - 52))" by simp
    also have "\<dots> = 2 powi 52 * 2 powi (e - 52)" by (rule power_int_add) simp
    finally show ?thesis by (simp add: q_def)
  qed
  have "2 ^ 52 \<le> a / q" using pe q0 by (simp add: split field_simps)
  then have "(2::int) ^ 52 \<le> \<lfloor>a / q\<rfloor>" by (simp add: le_floor_iff)
  with round_half_even_ge_floor [of "a / q"] have "(2::int) ^ 52 \<le> round_half_even (a / q)"
    by linarith
  then have "(of_int ((2::int) ^ 52) :: real) \<le> of_int (round_half_even (a / q))"
    by (simp only: of_int_le_iff)
  then have "2 ^ 52 * q \<le> of_int (round_half_even (a / q)) * q" using q0 by simp
  moreover have "(2::real) ^ 1024 \<le> 2 powi e"
  proof -
    have "(2::real) powi 1024 \<le> 2 powi e" by (rule power_int_increasing) (use e1024 in simp_all)
    then show ?thesis by simp
  qed
  ultimately have y: "2 ^ 1024 \<le> of_int (round_half_even (a / q)) * q"
    using split by linarith
  show ?thesis
    using nz y
    by (simp only: binary64_def Let_def a_def [symmetric] e_def [symmetric] emax
          q_def [symmetric] if_False if_True)
qed

section \<open>Usage window builder\<close>

text \<open>
  Claim C2, as stated: for every window built with a non-null \<^verbatim>\<open>usedPercent\<close>,
  \<^verbatim>\<open>remainingPercent\<close> is \<^verbatim>\<open>100 - usedPercent\<close> clamped to \<^verbatim>\<open>[0,100]\<close> and never
  exceeds 100. It fails for a negative \<^verbatim>\<open>usedPercent\<close>: at -5 the builder gives 105,
  where the clamp would give 100.
\<close>

theorem remainingPercent_above_100_counterexample:
  "remainingPercent (toUsageWindow offline_world (Some (Fin (- 5))) None None None) = Some (Fin 105)
   \<and> remainingPercent (toUsageWindow offline_world (Some (Fin (- 5))) None None None)
       \<noteq> Some (clamp_percent (js_sub (Fin 100) (Fin (- 5))))"
  by (simp add: toUsageWindow_def calculateResetAfterSeconds_def js_sub_def clamp_percent_def)

text \<open>
  Claim C2, amended: for every window built with a non-null \<^verbatim>\<open>usedPercent\<close>,
  \<^verbatim>\<open>remainingPercent\<close> is \<^verbatim>\<open>Math.max(0, 100 - usedPercent)\<close>: the difference, as the
  subtraction of doubles computes it, is bounded below by 0 and not above, so a finite
  \<^verbatim>\<open>remainingPercent\<close> is never negative. It is the difference clamped to \<^verbatim>\<open>[0,100]\<close>
  whenever the computed difference does not exceed 100; when the computed difference exceeds
  100 it is that difference, above 100, and not the clamp.
\<close>

theorem remainingPercent_lower_clamp:
  "remainingPercent (toUsageWindow W (Some u) ws ra vl)
     = Some (js_max (Fin 0) (js_sub (Fin 100) u))
   \<and> (\<not> js_lt (Fin 100) (js_sub (Fin 100) u) \<longrightarrow>
        remainingPercent (toUsageWindow W (Some u) ws ra vl)
          = Some (clamp_percent (js_sub (Fin 100) u)))
   \<and> (js_lt (Fin 100) (js_sub (Fin 100) u) \<longrightarrow>
        remainingPercent (toUsageWindow W (Some u) ws ra vl) = Some (js_sub (Fin 100) u)
        \<and> remainingPercent (toUsageWindow W (Some u) ws ra vl)
            \<noteq> Some (clamp_percent (js_sub (Fin 100) u)))
   \<and> (\<forall>y. remainingPercent (toUsageWindow W (Some u) ws ra vl) = Some (Fin y) \<longrightarrow> 0 \<le> y)"
proof -
  have r: "remainingPercent (toUsageWindow W (Some u) ws ra vl)
             = Some (js_max (Fin 0) (js_sub (Fin 100) u))"
    by (simp add: toUsageWindow_def Let_def)
  show ?thesis
    unfolding r
    by (cases "js_sub (Fin 100) u") (auto simp add: clamp_percent_def)
qed

theorem remainingPercent_lower_clamp_witness:
  "\<not> js_lt (Fin 100) (js_sub (Fin 100) (Fin 30))
   \<and> remainingPercent (toUsageWindow offline_world (Some (Fin 30)) None None None) = Some (Fin 70)
   \<and> remainingPercent (toUsageWindow offline_world (Some (Fin 30)) None None None)
       = Some (clamp_percent (js_sub (Fin 100) (Fin 30)))
   \<and> js_lt (Fin 100) (js_sub (Fin 100) (Fin (- 5)))
   \<and> remainingPercent (toUsageWindow offline_world (Some (Fin (- 5))) None None None)
       = Some (Fin 105)"
  using remainingPercent_lower_clamp [of offline_world "Fin 30" None None None]
    remainingPercent_lower_clamp [of offline_world "Fin (- 5)" None None None]
  by (simp add: js_sub_def clamp_percent_def)

section \<open>Timestamp coercion\<close>

text \<open>
  Claim C9: \<^verbatim>\<open>toTimestamp\<close> returns null for every falsy input, among them the number 0,
  the empty string and NaN, so the epoch instant 0 is coerced to "no timestamp"; every other
  number below \<^verbatim>\<open>10^12\<close>, negative ones included, is multiplied by 1000, and a number at or
  above \<^verbatim>\<open>10^12\<close> is returned unchanged. The product is the product of doubles: rounded,
  and \<^verbatim>\<open>-Infinity\<close> when it overflows.
\<close>

theorem toTimestamp_falsy_null_and_scaling:
  "(\<not> truthy v \<longrightarrow> toTimestamp W v = None)
   \<and> toTimestamp W (JNum (Fin 0)) = None
   \<and> toTimestamp W (JStr []) = None
   \<and> toTimestamp W (JNum NaN) = None
   \<and> (n \<noteq> Fin 0 \<and> n \<noteq> NaN \<and> js_lt n (Fin (10 ^ 12)) \<longrightarrow>
        toTimestamp W (JNum n) = Some (js_mul n (Fin 1000)))
   \<and> (x \<noteq> 0 \<and> x < 10 ^ 12 \<longrightarrow> toTimestamp W (JNum (Fin x)) = Some (binary64 (x * 1000)))
   \<and> (x * 1000 \<le> - (2 ^ 1024) \<longrightarrow> toTimestamp W (JNum (Fin x)) = Some NegInf)
   \<and> (10 ^ 12 \<le> y \<longrightarrow> toTimestamp W (JNum (Fin y)) = Some (Fin y))
   \<and> toTimestamp W (JNum NegInf) = Some NegInf
   \<and> toTimestamp W (JNum PosInf) = Some PosInf"
proof -
  have over: "x * 1000 \<le> - (2 ^ 1024) \<longrightarrow> toTimestamp W (JNum (Fin x)) = Some NegInf"
  proof
    assume a: "x * 1000 \<le> - (2 ^ 1024)"
    have p: "(0::real) < 2 ^ 1024" by simp
    from a p have neg: "x * 1000 < 0" by linarith
    then have x: "x < 0" by (simp add: mult_less_0_iff)
    from a neg have "2 ^ 1024 \<le> \<bar>x * 1000\<bar>" by linarith
    from binary64_overflow [OF this] neg have "binary64 (x * 1000) = NegInf" by simp
    with x show "toTimestamp W (JNum (Fin x)) = Some NegInf"
      by (simp add: toTimestamp_def)
  qed
  have scale: "n \<noteq> Fin 0 \<and> n \<noteq> NaN \<and> js_lt n (Fin (10 ^ 12)) \<longrightarrow>
        toTimestamp W (JNum n) = Some (js_mul n (Fin 1000))"
    by (simp add: toTimestamp_def)
  from over scale show ?thesis
    by (simp add: toTimestamp_def signed_inf_def)
qed

theorem toTimestamp_falsy_null_and_scaling_witness:
  "\<not> truthy JNull \<and> toTimestamp offline_world JNull = None
   \<and> toTimestamp offline_world (JNum (Fin 0)) = None
   \<and> (- 5 :: real) \<noteq> 0 \<and> (- 5 :: real) < 10 ^ 12
   \<and> toTimestamp offline_world (JNum (Fin (- 5))) = Some (Fin (- 5000))
   \<and> (10 :: real) ^ 12 \<le> 2000000000000
   \<and> toTimestamp offline_world (JNum (Fin 2000000000000)) = Some (Fin 2000000000000)
   \<and> - (10 ^ 308) * 1000 \<le> (- (2 ^ 1024) :: real)
   \<and> toTimestamp offline_world (JNum (Fin (- (10 ^ 308)))) = Some NegInf"
proof -
  note small = toTimestamp_falsy_null_and_scaling
                 [of JNull offline_world "Fin (- 5)" "- 5" 2000000000000]
  note large = toTimestamp_falsy_null_and_scaling
                 [of JNull offline_world "Fin (- 5)" "- (10 ^ 308)" 2000000000000]
  have h: "- (10 ^ 308) * 1000 \<le> (- (2 ^ 1024) :: real)" by simp
  from large have "- (10 ^ 308) * 1000 \<le> (- (2 ^ 1024) :: real) \<longrightarrow>
      toTimestamp offline_world (JNum (Fin (- (10 ^ 308)))) = Some NegInf"
    by (elim conjE)
  with h have l: "toTimestamp offline_world (JNum (Fin (- (10 ^ 308)))) = Some NegInf"
    by (rule rev_mp)
  from small have s: "\<not> truthy JNull \<and> toTimestamp offline_world JNull = None
   \<and> toTimestamp offline_world (JNum (Fin 0)) = None
   \<and> (- 5 :: real) \<noteq> 0 \<and> (- 5 :: real) < 10 ^ 12
   \<and> toTimestamp offline_world (JNum (Fin (- 5))) = Some (Fin (- 5000))
   \<and> (10 :: real) ^ 12 \<le> 2000000000000
   \<and> toTimestamp offline_world (JNum (Fin 2000000000000)) = Some (Fin 2000000000000)"
    by simp
  from s h l show ?thesis by (intro conjI) (elim conjE, assumption)+
qed

section \<open>Dispatch facade: unknown identifiers\<close>

text \<open>
  Claim C8: for every provider identifier outside the nine known ones,
  \<^verbatim>\<open>fetchQuotaForProvider\<close> resolves to a result with \<^verbatim>\<open>ok:false\<close>, \<^verbatim>\<open>configured:false\<close>,
  the error \<^verbatim>\<open>Unsupported provider\<close>, a null usage, and the identifier as both
  \<^verbatim>\<open>providerId\<close> and \<^verbatim>\<open>providerName\<close>.
\<close>

theorem fetchQuotaForProvider_unsupported:
  assumes "pid \<notin> {''claude'', ''codex'', ''github-copilot'', ''github-copilot-addon'', ''google'',
                   ''kimi-for-coding'', ''nano-gpt'', ''openrouter'', ''zai-coding-plan''}"
  shows "fetchQuotaForProvider W pid =
           Inr \<lparr>providerId = pid, providerName = pid, ok = False, configured = False,
                usage = None, error = Some ''Unsupported provider'', fetchedAt = dateNow W\<rparr>"
  using assms by (simp add: fetchQuotaForProvider_def buildResult_def)

theorem fetchQuotaForProvider_unsupported_witness:
  "''openai'' \<notin> {''claude'', ''codex'', ''github-copilot'', ''github-copilot-addon'', ''google'',
                   ''kimi-for-coding'', ''nano-gpt'', ''openrouter'', ''zai-coding-plan''}
   \<and> fetchQuotaForProvider offline_world ''openai'' =
           Inr \<lparr>providerId = ''openai'', providerName = ''openai'', ok = False, configured = False,
                usage = None, error = Some ''Unsupported provider'', fetchedAt = 1700000000000\<rparr>"
  using fetchQuotaForProvider_unsupported [of "''openai''" offline_world]
  by (simp add: offline_world_def)

section \<open>Google model listing: endpoint failover\<close>

lemma fetchGoogleModels_loop_step:
  "fetchGoogleModels_loop W token project (e # es) =
     (case endpoint_json W token project (e @ ''/v1internal:fetchAvailableModels'') of
        Some v \<Rightarrow> v
      | None \<Rightarrow> fetchGoogleModels_loop W token project es)"
proof (cases "js_ToString W token")
  case (Inl err)
  then show ?thesis by (simp add: endpoint_json_def)
next
  case (Inr bearer)
  obtain rq where rq: "rq = models_request bearer project e" by simp
  have ex: "\<lparr>url = e @ ''/v1internal:fetchAvailableModels'',
                   http_method = ''POST'',
                   headers =
                     [(''Authorization'', ''Bearer '' @ bearer),
                      (''Content-Type'', ''application/json''),
                      (''User-Agent'', ''antigravity/1.11.5 windows/amd64''),
                      (''X-Goog-Api-Client'', ''google-cloud-sdk vscode_cloudshelleditor/0.1''),
                      (''Client-Metadata'',
                       ''{\"ideType\":\"IDE_UNSPECIFIED\",\"platform\":\"PLATFORM_UNSPECIFIED\",\"pluginType\":\"GEMINI\"}'')],
                   body = JsonBody (if truthy project then JObj [(''project'', project)] else JObj [])\<rparr>
            = rq"
    unfolding rq models_request_def GOOGLE_HEADERS_def project_body_def by simp
  have lhs: "fetchGoogleModels_loop W token project (e # es) =
      (case fetch W rq of
         FetchThrows x \<Rightarrow> fetchGoogleModels_loop W token project es
       | Response status content \<Rightarrow>
           if response_ok status
           then (case content of
                   JsonThrows x \<Rightarrow> fetchGoogleModels_loop W token project es
                 | JsonValue v \<Rightarrow> v)
           else fetchGoogleModels_loop W token project es)"
    by (simp add: Inr rq)
  have rhs: "endpoint_json W token project (e @ ''/v1internal:fetchAvailableModels'') =
      (case fetch W rq of
         FetchThrows x \<Rightarrow> None
       | Response status content \<Rightarrow>
           if response_ok status
           then (case content of JsonThrows x \<Rightarrow> None | JsonValue v \<Rightarrow> Some v)
           else None)"
    unfolding endpoint_json_def Inr sum.case ex ..
  show ?thesis
    unfolding lhs rhs
    by (cases "fetch W rq") (simp_all split: http_body.splits)
qed

text \<open>
  Claim C7: \<^verbatim>\<open>fetchGoogleModels\<close> posts to the three candidate hosts in their list order
  (the daily sandbox, the autopush sandbox, the primary host) and returns the parsed JSON
  body of the first one that answers 2xx; a host whose request throws, whose body cannot be
  read, or that answers non-2xx is abandoned for the next one; the value returned is the body
  itself whichever host gave it; when all three fail the result is null.
\<close>

theorem fetchGoogleModels_failover:
  "fetchGoogleModels W token project =
     (case endpoint_json W token project
             ''https://daily-cloudcode-pa.sandbox.googleapis.com/v1internal:fetchAvailableModels'' of
        Some v \<Rightarrow> v
      | None \<Rightarrow>
          (case endpoint_json W token project
                  ''https://autopush-cloudcode-pa.sandbox.googleapis.com/v1internal:fetchAvailableModels'' of
             Some v \<Rightarrow> v
           | None \<Rightarrow>
               (case endpoint_json W token project
                       ''https://cloudcode-pa.googleapis.com/v1internal:fetchAvailableModels'' of
                  Some v \<Rightarrow> v
                | None \<Rightarrow> JNull)))"
  unfolding fetchGoogleModels_def GOOGLE_ENDPOINTS_def GOOGLE_PRIMARY_ENDPOINT_def
    fetchGoogleModels_loop_step fetchGoogleModels_loop.simps(1)
  by (simp cong: option.case_cong)

theorem fetchGoogleModels_failover_witness:
  "endpoint_json second_endpoint_world (JStr ''ya29.token'') (JStr ''rising-fact-p41fc'')
     ''https://daily-cloudcode-pa.sandbox.googleapis.com/v1internal:fetchAvailableModels'' = None
   \<and> fetchGoogleModels second_endpoint_world (JStr ''ya29.token'') (JStr ''rising-fact-p41fc'')
       = JObj [(''models'', JObj [(''from-autopush'', JObj [])])]
   \<and> fetchGoogleModels third_endpoint_world (JStr ''ya29.token'') (JStr ''rising-fact-p41fc'')
       = JObj [(''models'', JObj [])]"
  using fetchGoogleModels_failover [of second_endpoint_world "JStr ''ya29.token''" "JStr ''rising-fact-p41fc''"]
    fetchGoogleModels_failover [of third_endpoint_world "JStr ''ya29.token''" "JStr ''rising-fact-p41fc''"]
  by (simp add: endpoint_json_def second_endpoint_world_def third_endpoint_world_def
        offline_world_def response_ok_def)

section \<open>Copilot windows\<close>

lemma map_of_obj_set:
  "map_of (obj_set kvs k v) k' = (if k' = k then Some v else map_of kvs k')"
  by (induction kvs) auto

lemma toNumber_finite: "toNumber W v = Some n \<Longrightarrow> \<exists>x. n = Fin x"
  by (cases n) (auto simp: toNumber_def Let_def split: jsval.splits if_splits)

lemma clamp_percent_range:
  "t \<noteq> NaN \<Longrightarrow> \<exists>z. clamp_percent t = Fin z \<and> 0 \<le> z \<and> z \<le> 100"
  by (cases t) (auto simp add: clamp_percent_def)

lemma js_div_not_NaN: "x \<noteq> 0 \<Longrightarrow> js_div (Fin y) (Fin x) \<noteq> NaN"
  by (simp add: binary64_not_NaN)

lemma js_mul_100_not_NaN: "a \<noteq> NaN \<Longrightarrow> js_mul a (Fin 100) \<noteq> NaN"
  by (cases a) (simp_all add: binary64_not_NaN signed_inf_def)

lemma js_sub_100_not_NaN: "b \<noteq> NaN \<Longrightarrow> js_sub (Fin 100) b \<noteq> NaN"
  by (cases b) (simp_all add: js_sub_def binary64_not_NaN)

lemma copilot_used_range:
  assumes "x \<noteq> 0"
  shows "\<exists>z. clamp_percent (js_sub (Fin 100) (js_mul (js_div (Fin y) (Fin x)) (Fin 100))) = Fin z
           \<and> 0 \<le> z \<and> z \<le> 100"
  using assms
  by (intro clamp_percent_range js_sub_100_not_NaN js_mul_100_not_NaN js_div_not_NaN)

lemma addWindow_lookup:
  assumes "truthy snapshot"
  shows "\<exists>w. map_of (addWindow W ra label snapshot ws) label = Some w
     \<and> (toNumber W (get_prop snapshot ''entitlement'') \<in> {None, Some (Fin 0)} \<longrightarrow> usedPercent w = None)
     \<and> (\<forall>r. toNumber W (get_prop snapshot ''entitlement'') = Some (Fin 0)
             \<and> toNumber W (get_prop snapshot ''remaining'') = Some r
             \<longrightarrow> valueLabel w = Some (js_toFixed W 0 r @ '' / 0 left''))
     \<and> (\<forall>u. usedPercent w = Some u \<longrightarrow>
             (\<exists>x. u = Fin x \<and> 0 \<le> x \<and> x \<le> 100)
             \<and> toNumber W (get_prop snapshot ''entitlement'') \<notin> {None, Some (Fin 0)})"
proof -
  let ?e = "toNumber W (get_prop snapshot ''entitlement'')"
  let ?r = "toNumber W (get_prop snapshot ''remaining'')"
  have zero: "js_toFixed W 0 (Fin 0) = ''0''"
    by (simp add: js_toFixed_def toFixed_digits_def pad_zeros_def decimal.simps digit_char_def)
  show ?thesis
  proof (cases ?e)
    case None
    then show ?thesis using assms
      by (simp add: addWindow_def Let_def map_of_obj_set toUsageWindow_def)
  next
    case (Some e)
    then obtain x where e: "e = Fin x" using toNumber_finite by blast
    show ?thesis
    proof (cases ?r)
      case None
      then show ?thesis using assms Some
        by (simp add: addWindow_def Let_def map_of_obj_set toUsageWindow_def)
    next
      case (Some r)
      then obtain y where r: "r = Fin y" using toNumber_finite by blast
      show ?thesis
      proof (cases "x = 0")
        case True
        then show ?thesis using assms \<open>?e = Some e\<close> Some e r zero
          by (simp add: addWindow_def Let_def map_of_obj_set toUsageWindow_def)
      next
        case False
        from copilot_used_range [OF False, of y] obtain z
          where z: "clamp_percent (js_sub (Fin 100) (js_mul (js_div (Fin y) (Fin x)) (Fin 100))) = Fin z"
            "0 \<le> z" "z \<le> 100"
          by blast
        have u: "usedPercent (toUsageWindow W (Some (Fin z)) None ra l) = Some (Fin z)" for l
          by (simp add: toUsageWindow_def Let_def)
        from False assms \<open>?e = Some e\<close> Some e r
        have "map_of (addWindow W ra label snapshot ws) label =
                Some (toUsageWindow W (Some (Fin z)) None ra
                        (Some (js_toFixed W 0 (Fin y) @ '' / '' @ js_toFixed W 0 (Fin x) @ '' left'')))"
          by (simp add: addWindow_def Let_def map_of_obj_set z(1) del: js_mul.simps js_div.simps)
        with False \<open>?e = Some e\<close> Some e r u z(2,3) show ?thesis by simp
      qed
    qed
  qed
qed

text \<open>
  Claim C10, as stated: whenever the entitlement coerces to 0 and the remaining count is not
  null, the window carries the label \<^verbatim>\<open>0 / 0 left\<close>. It fails when the remaining count is
  not 0: with an entitlement of 0 and 5 remaining the label is \<^verbatim>\<open>5 / 0 left\<close> (and the
  used percentage is null).
\<close>

theorem copilot_label_counterexample:
  "buildCopilotWindows offline_world zero_entitlement_payload =
     [(''chat'', \<lparr>usedPercent = None, remainingPercent = None, windowSeconds = None,
                  resetAfterSeconds = None, resetAt = None, resetAtFormatted = None,
                  resetAfterFormatted = None, valueLabel = Some ''5 / 0 left''\<rparr>)]
   \<and> ''5 / 0 left'' \<noteq> ''0 / 0 left''"
  by (simp add: buildCopilotWindows_def zero_entitlement_payload_def Let_def addWindow_def
        opt_prop_def nullish_or_def toNumber_def toTimestamp_def toUsageWindow_def
        calculateResetAfterSeconds_def js_toFixed_def toFixed_digits_def pad_zeros_def
        decimal.simps digit_char_def)

text \<open>
  Claim C10, amended: the Copilot window builder never divides by zero. For each of its three
  windows (\<^verbatim>\<open>chat\<close>, \<^verbatim>\<open>completions\<close>, \<^verbatim>\<open>premium\<close>) built from a truthy snapshot: when
  the coerced entitlement is 0 or null the used percentage is null; a used percentage that is
  not null is a finite number in \<^verbatim>\<open>[0,100]\<close> and comes from a non-zero entitlement; yet when
  the entitlement coerces to 0 and the remaining count \<^verbatim>\<open>r\<close> is not null, the window still
  carries the label \<^verbatim>\<open>r.toFixed(0) / 0 left\<close> (which is \<^verbatim>\<open>0 / 0 left\<close> only when \<^verbatim>\<open>r\<close>
  prints as 0): the label and the percentage are guarded by different conditions.
\<close>

theorem buildCopilotWindows_zero_entitlement:
  assumes "(label, key) \<in> {(''chat'', ''chat''), (''completions'', ''completions''),
                            (''premium'', ''premium_interactions'')}"
    and "truthy (copilot_snapshot payload key)"
  shows "\<exists>w. map_of (buildCopilotWindows W payload) label = Some w
     \<and> (toNumber W (get_prop (copilot_snapshot payload key) ''entitlement'') \<in> {None, Some (Fin 0)}
          \<longrightarrow> usedPercent w = None)
     \<and> (\<forall>r. toNumber W (get_prop (copilot_snapshot payload key) ''entitlement'') = Some (Fin 0)
             \<and> toNumber W (get_prop (copilot_snapshot payload key) ''remaining'') = Some r
             \<longrightarrow> valueLabel w = Some (js_toFixed W 0 r @ '' / 0 left''))
     \<and> (\<forall>u. usedPercent w = Some u \<longrightarrow>
             (\<exists>x. u = Fin x \<and> 0 \<le> x \<and> x \<le> 100)
             \<and> toNumber W (get_prop (copilot_snapshot payload key) ''entitlement'')
                 \<notin> {None, Some (Fin 0)})"
proof -
  let ?q = "nullish_or (opt_prop payload ''quota_snapshots'') (JObj [])"
  let ?ra = "toTimestamp W (opt_prop payload ''quota_reset_date'')"
  let ?w1 = "addWindow W ?ra ''chat'' (get_prop ?q ''chat'') []"
  let ?w2 = "addWindow W ?ra ''completions'' (get_prop ?q ''completions'') ?w1"
  let ?w3 = "addWindow W ?ra ''premium'' (get_prop ?q ''premium_interactions'') ?w2"
  have b: "buildCopilotWindows W payload = ?w3"
    by (simp add: buildCopilotWindows_def Let_def)
  have other: "\<And>l l' s ws. l' \<noteq> l \<Longrightarrow> map_of (addWindow W ?ra l s ws) l' = map_of ws l'"
    by (simp add: addWindow_def Let_def map_of_obj_set)
  from assms(1) consider
      (chat) "label = ''chat''" "key = ''chat''"
    | (completions) "label = ''completions''" "key = ''completions''"
    | (premium) "label = ''premium''" "key = ''premium_interactions''"
    by auto
  then show ?thesis
  proof cases
    case chat
    have "map_of ?w3 ''chat'' = map_of ?w1 ''chat''"
      by (simp add: other)
    with addWindow_lookup [of "get_prop ?q ''chat''" W ?ra "''chat''" "[]"] assms(2) chat b
    show ?thesis by (simp add: copilot_snapshot_def)
  next
    case completions
    have "map_of ?w3 ''completions'' = map_of ?w2 ''completions''"
      by (simp add: other)
    with addWindow_lookup [of "get_prop ?q ''completions''" W ?ra "''completions''" ?w1] assms(2) completions b
    show ?thesis by (simp add: copilot_snapshot_def)
  next
    case premium
    with addWindow_lookup [of "get_prop ?q ''premium_interactions''" W ?ra "''premium''" ?w2] assms(2) b
    show ?thesis by (simp add: copilot_snapshot_def)
  qed
qed

theorem buildCopilotWindows_zero_entitlement_witness:
  "(''chat'', ''chat'') \<in> {(''chat'', ''chat''), (''completions'', ''completions''),
                            (''premium'', ''premium_interactions'')}
   \<and> truthy (copilot_snapshot zero_entitlement_payload ''chat'')
   \<and> toNumber offline_world (get_prop (copilot_snapshot zero_entitlement_payload ''chat'') ''entitlement'')
       = Some (Fin 0)
   \<and> toNumber offline_world (get_prop (copilot_snapshot zero_entitlement_payload ''chat'') ''remaining'')
       = Some (Fin 5)
   \<and> map_option usedPercent (map_of (buildCopilotWindows offline_world zero_entitlement_payload) ''chat'')
       = Some None
   \<and> map_option valueLabel (map_of (buildCopilotWindows offline_world zero_entitlement_payload) ''chat'')
       = Some (Some ''5 / 0 left'')"
proof -
  have s: "truthy (copilot_snapshot zero_entitlement_payload ''chat'')"
    by (simp add: copilot_snapshot_def zero_entitlement_payload_def opt_prop_def nullish_or_def)
  have e: "toNumber offline_world (get_prop (copilot_snapshot zero_entitlement_payload ''chat'') ''entitlement'')
       = Some (Fin 0)"
    by (simp add: copilot_snapshot_def zero_entitlement_payload_def opt_prop_def nullish_or_def toNumber_def)
  have r: "toNumber offline_world (get_prop (copilot_snapshot zero_entitlement_payload ''chat'') ''remaining'')
       = Some (Fin 5)"
    by (simp add: copilot_snapshot_def zero_entitlement_payload_def opt_prop_def nullish_or_def toNumber_def)
  have f: "js_toFixed offline_world 0 (Fin 5) = ''5''"
    by (simp add: js_toFixed_def toFixed_digits_def pad_zeros_def decimal.simps digit_char_def)
  from buildCopilotWindows_zero_entitlement [of "''chat''" "''chat''" zero_entitlement_payload offline_world] s
  obtain w where w: "map_of (buildCopilotWindows offline_world zero_entitlement_payload) ''chat'' = Some w"
    and u: "toNumber offline_world (get_prop (copilot_snapshot zero_entitlement_payload ''chat'') ''entitlement'') \<in> {None, Some (Fin 0)}
          \<longrightarrow> usedPercent w = None"
    and l: "\<forall>r. toNumber offline_world (get_prop (copilot_snapshot zero_entitlement_payload ''chat'') ''entitlement'') = Some (Fin 0)
             \<and> toNumber offline_world (get_prop (copilot_snapshot zero_entitlement_payload ''chat'') ''remaining'') = Some r
             \<longrightarrow> valueLabel w = Some (js_toFixed offline_world 0 r @ '' / 0 left'')"
    by auto
  from u e have "usedPercent w = None" by simp
  moreover from l e r f have "valueLabel w = Some ''5 / 0 left''" by simp
  ultimately show ?thesis using s e r w by simp
qed

section \<open>z.ai: the used percentage of the tokens window\<close>

lemma zai_key: "zaiApiKey (zai_world p) = JStr ''zk-1''"
  by (simp add: zaiApiKey_def zai_world_def offline_world_def normalizeAuthEntry_def opt_prop_def nullish_or_def)

lemma zai_fetch: "fetch (zai_world p) (zai_request ''zk-1'') = Response 200 (JsonValue p)"
  by (simp add: zai_world_def offline_world_def zai_request_def)

lemma zai_try:
  "fetchZaiQuota (zai_world p) =
     (case zaiWindows (zai_world p) p of
        Inl e \<Rightarrow> Inr (buildResult (zai_world p) ''zai-coding-plan'' ''z.ai'' False True None
                       (Some (catch_message e)))
      | Inr ws \<Rightarrow> Inr (buildResult (zai_world p) ''zai-coding-plan'' ''z.ai'' True True
                       (Some \<lparr>windows = ws, models = None\<rparr>) None))"
  by (simp add: fetchZaiQuota_def zaiTry_def zai_key zai_fetch response_ok_def split: sum.splits)

text \<open>
  Claim C4, as stated: when the \<^verbatim>\<open>percentage\<close> field is not a number, the used percentage
  is computed as a used/limit ratio from the fields of the limit entry. It fails: for a tokens
  limit with \<^verbatim>\<open>usage\<close> 1000, \<^verbatim>\<open>currentValue\<close> 250, \<^verbatim>\<open>remaining\<close> 750 and no
  \<^verbatim>\<open>percentage\<close>, the window has a null used percentage; no ratio is computed.
\<close>

theorem zai_no_ratio_fallback_counterexample:
  "fetchZaiQuota (zai_world zai_ratio_payload) =
     Inr \<lparr>providerId = ''zai-coding-plan'', providerName = ''z.ai'', ok = True, configured = True,
          usage = Some \<lparr>windows = [(''tokens'',
                                     \<lparr>usedPercent = None, remainingPercent = None,
                                      windowSeconds = None, resetAfterSeconds = None,
                                      resetAt = None, resetAtFormatted = None,
                                      resetAfterFormatted = None, valueLabel = None\<rparr>)],
                         models = None\<rparr>,
          error = None, fetchedAt = 1700000000000\<rparr>"
proof -
  have w: "zaiWindows (zai_world zai_ratio_payload) zai_ratio_payload =
      Inr [(''tokens'', \<lparr>usedPercent = None, remainingPercent = None,
                                      windowSeconds = None, resetAfterSeconds = None,
                                      resetAt = None, resetAtFormatted = None,
                                      resetAfterFormatted = None, valueLabel = None\<rparr>)]"
    by (simp add: zaiWindows_def zaiTokensLimit_def zai_ratio_payload_def opt_prop_def Let_def
          resolveWindowSeconds_def resolveWindowLabel_def zaiUsedPercent_def toUsageWindow_def
          calculateResetAfterSeconds_def)
  show ?thesis
    by (simp add: zai_try w buildResult_def) (simp add: zai_world_def offline_world_def)
qed

text \<open>
  Claim C4, amended: for the z.ai fetcher with a credential that converts to a string, a 2xx
  answer and a tokens limit in the payload: when the length of the window is computed
  without an exception, the result is \<^verbatim>\<open>ok:true\<close> with one window, whose used percentage is
  the upstream \<^verbatim>\<open>percentage\<close> field when that field is a number, and null otherwise: there
  is no used/limit ratio fallback. When computing the length of the window throws (the
  \<^verbatim>\<open>unit\<close> of the limit cannot be converted to a property key, or its \<^verbatim>\<open>number\<close> to a
  number), the result is \<^verbatim>\<open>ok:false\<close>, \<^verbatim>\<open>configured:true\<close>, without usage, with the message
  of the exception.
\<close>

theorem fetchZaiQuota_percentage_or_null:
  assumes "truthy (zaiApiKey W)"
    and "js_ToString W (zaiApiKey W) = Inr bearer"
    and "fetch W (zai_request bearer) = Response status (JsonValue payload)"
    and "response_ok status"
    and "truthy (zaiTokensLimit payload)"
  shows "case resolveWindowSeconds W (zaiTokensLimit payload) of
           Inl e \<Rightarrow>
             fetchZaiQuota W =
               Inr (buildResult W ''zai-coding-plan'' ''z.ai'' False True None
                      (Some (catch_message e)))
         | Inr seconds \<Rightarrow>
             (\<exists>label w.
                fetchZaiQuota W =
                  Inr (buildResult W ''zai-coding-plan'' ''z.ai'' True True
                         (Some \<lparr>windows = [(label, w)], models = None\<rparr>) None)
                \<and> windowSeconds w = seconds
                \<and> (\<forall>n. opt_prop (zaiTokensLimit payload) ''percentage'' = JNum n
                         \<longrightarrow> usedPercent w = Some n)
                \<and> ((\<forall>n. opt_prop (zaiTokensLimit payload) ''percentage'' \<noteq> JNum n)
                         \<longrightarrow> usedPercent w = None))"
proof (cases "resolveWindowSeconds W (zaiTokensLimit payload)")
  case (Inl e)
  then have ws: "zaiWindows W payload = Inl e"
    by (simp add: zaiWindows_def Let_def)
  have "fetchZaiQuota W =
          Inr (buildResult W ''zai-coding-plan'' ''z.ai'' False True None (Some (catch_message e)))"
    using assms(1,2,3,4) by (simp add: fetchZaiQuota_def zaiTry_def Let_def ws)
  with Inl show ?thesis by simp
next
  case (Inr seconds)
  let ?t = "zaiTokensLimit payload"
  let ?ra = "if truthy (opt_prop ?t ''nextResetTime'')
             then normalizeTimestamp (get_prop ?t ''nextResetTime'') else None"
  let ?w = "toUsageWindow W (zaiUsedPercent ?t) seconds ?ra None"
  have ws: "zaiWindows W payload = Inr [(resolveWindowLabel W seconds, ?w)]"
    using assms(5) Inr by (simp add: zaiWindows_def Let_def)
  have r: "fetchZaiQuota W =
             Inr (buildResult W ''zai-coding-plan'' ''z.ai'' True True
                    (Some \<lparr>windows = [(resolveWindowLabel W seconds, ?w)], models = None\<rparr>) None)"
    using assms(1,2,3,4) by (simp add: fetchZaiQuota_def zaiTry_def Let_def ws)
  have u: "usedPercent ?w = zaiUsedPercent ?t"
    by (simp add: toUsageWindow_def Let_def)
  have s: "windowSeconds ?w = seconds"
    by (simp add: toUsageWindow_def Let_def)
  have "(\<forall>n. opt_prop ?t ''percentage'' = JNum n \<longrightarrow> usedPercent ?w = Some n)
        \<and> ((\<forall>n. opt_prop ?t ''percentage'' \<noteq> JNum n) \<longrightarrow> usedPercent ?w = None)"
    unfolding u by (auto simp add: zaiUsedPercent_def split: jsval.splits)
  with r s have "\<exists>label w.
                fetchZaiQuota W =
                  Inr (buildResult W ''zai-coding-plan'' ''z.ai'' True True
                         (Some \<lparr>windows = [(label, w)], models = None\<rparr>) None)
                \<and> windowSeconds w = seconds
                \<and> (\<forall>n. opt_prop (zaiTokensLimit payload) ''percentage'' = JNum n
                         \<longrightarrow> usedPercent w = Some n)
                \<and> ((\<forall>n. opt_prop (zaiTokensLimit payload) ''percentage'' \<noteq> JNum n)
                         \<longrightarrow> usedPercent w = None)"
    by blast
  with Inr show ?thesis by simp
qed

theorem fetchZaiQuota_percentage_or_null_witness:
  "truthy (zaiApiKey (zai_world zai_percentage_payload))
   \<and> js_ToString (zai_world zai_percentage_payload) (zaiApiKey (zai_world zai_percentage_payload))
       = Inr ''zk-1''
   \<and> fetch (zai_world zai_percentage_payload) (zai_request ''zk-1'')
       = Response 200 (JsonValue zai_percentage_payload)
   \<and> response_ok 200
   \<and> truthy (zaiTokensLimit zai_percentage_payload)
   \<and> resolveWindowSeconds (zai_world zai_percentage_payload) (zaiTokensLimit zai_percentage_payload)
       = Inr None
   \<and> opt_prop (zaiTokensLimit zai_percentage_payload) ''percentage'' = JNum (Fin 25)
   \<and> (\<exists>label w.
         fetchZaiQuota (zai_world zai_percentage_payload) =
           Inr (buildResult (zai_world zai_percentage_payload) ''zai-coding-plan'' ''z.ai'' True True
                  (Some \<lparr>windows = [(label, w)], models = None\<rparr>) None)
         \<and> usedPercent w = Some (Fin 25))
   \<and> truthy (zaiTokensLimit zai_unit_object_payload)
   \<and> resolveWindowSeconds (zai_world zai_unit_object_payload) (zaiTokensLimit zai_unit_object_payload)
       = Inl (JsError ''Cannot convert object to primitive value'')
   \<and> fetchZaiQuota (zai_world zai_unit_object_payload) =
       Inr (buildResult (zai_world zai_unit_object_payload) ''zai-coding-plan'' ''z.ai'' False True
              None (Some ''Cannot convert object to primitive value''))"
proof -
  let ?W = "zai_world zai_percentage_payload"
  let ?V = "zai_world zai_unit_object_payload"
  have k: "truthy (zaiApiKey (zai_world p))" for p by (simp add: zai_key)
  have b: "js_ToString (zai_world p) (zaiApiKey (zai_world p)) = Inr ''zk-1''" for p
    by (simp add: zai_key)
  have o: "response_ok 200" by (simp add: response_ok_def)
  have t: "zaiTokensLimit zai_percentage_payload =
             JObj [(''type'', JStr ''TOKENS_LIMIT''), (''usage'', JNum (Fin 1000)),
                   (''currentValue'', JNum (Fin 250)), (''percentage'', JNum (Fin 25))]"
    by (simp add: zaiTokensLimit_def zai_percentage_payload_def opt_prop_def)
  have tt: "truthy (zaiTokensLimit zai_percentage_payload)" by (simp add: t)
  have p: "opt_prop (zaiTokensLimit zai_percentage_payload) ''percentage'' = JNum (Fin 25)"
    by (simp add: t opt_prop_def)
  have s: "resolveWindowSeconds ?W (zaiTokensLimit zai_percentage_payload) = Inr None"
    by (simp add: t resolveWindowSeconds_def)
  have t': "zaiTokensLimit zai_unit_object_payload =
             JObj [(''type'', JStr ''TOKENS_LIMIT''), (''number'', JNum (Fin 1)),
                   (''unit'', JObj [(''toString'', JNum (Fin 1))]),
                   (''percentage'', JNum (Fin 10))]"
    by (simp add: zaiTokensLimit_def zai_unit_object_payload_def opt_prop_def)
  have tt': "truthy (zaiTokensLimit zai_unit_object_payload)" by (simp add: t')
  have s': "resolveWindowSeconds ?V (zaiTokensLimit zai_unit_object_payload)
              = Inl (JsError ''Cannot convert object to primitive value'')"
    by (simp add: t' resolveWindowSeconds_def zai_world_def offline_world_def)
  from fetchZaiQuota_percentage_or_null [OF k b zai_fetch o tt] p s
  have 1: "\<exists>label w.
         fetchZaiQuota ?W =
           Inr (buildResult ?W ''zai-coding-plan'' ''z.ai'' True True
                  (Some \<lparr>windows = [(label, w)], models = None\<rparr>) None)
         \<and> usedPercent w = Some (Fin 25)"
    by auto
  from fetchZaiQuota_percentage_or_null [OF k b zai_fetch o tt'] s'
  have 2: "fetchZaiQuota ?V =
       Inr (buildResult ?V ''zai-coding-plan'' ''z.ai'' False True
              None (Some ''Cannot convert object to primitive value''))"
    by (simp add: catch_message_def)
  from k b zai_fetch o tt p s 1 tt' s' 2 show ?thesis by simp
qed

section \<open>Error field of a result: an exception with an empty message\<close>

text \<open>
  Claim C6 at a failing input: Claude has a stored token and the request throws an
  \<^verbatim>\<open>Error\<close> whose message is the empty string. The \<^verbatim>\<open>catch\<close> block passes the empty
  message to \<^verbatim>\<open>buildResult\<close>, which leaves a falsy error out: the result has
  \<^verbatim>\<open>ok:false\<close> and no \<^verbatim>\<open>error\<close> field.
\<close>

theorem empty_message_evaluation:
  "fetchQuotaForProvider empty_message_world ''claude'' =
     Inr \<lparr>providerId = ''claude'', providerName = ''Claude'', ok = False, configured = True,
          usage = None, error = None, fetchedAt = 1700000000000\<rparr>"
  by (simp add: fetchQuotaForProvider_def fetchClaudeQuota_def claudeTry_def
        empty_message_world_def offline_world_def normalizeAuthEntry_def opt_prop_def
        nullish_or_def catch_message_def buildResult_def)

section \<open>Google: an exception of the refresh exchange\<close>

lemma google_sources:
  "resolveGoogleAuthSources (offline_world \<lparr>readAuthFile := [(''google'', JObj [(''refresh'', JStr ''1//refresh'')])], fetch := f\<rparr>) =
     [\<lparr>sourceId = ''gemini'', sourceLabel = ''Gemini'', accessToken = JNull,
       refreshToken = JStr ''1//refresh'', projectId = JNull, expires = None, email = JUndefined\<rparr>]"
  by (simp add: resolveGoogleAuthSources_def resolveGeminiCliAuth_def resolveAntigravityAuth_def
        ANTIGRAVITY_ACCOUNTS_PATHS_def offline_world_def normalizeAuthEntry_def asObject_def
        nullish_or_def opt_prop_def asNonEmptyString_def js_trim_def is_space1_def is_space2_def is_space3_def
        parseGoogleRefreshToken_def nth_or_empty_def toTimestamp_def Let_def)

text \<open>
  Claim C1 at a failing input: the Google entry has a refresh token and no access token, so the
  fetcher runs the refresh exchange, which is outside every \<^verbatim>\<open>try\<close>. When the request to
  the token endpoint throws, or when the body of its 2xx answer is not JSON, the exception
  escapes \<^verbatim>\<open>fetchGoogleQuota\<close> and \<^verbatim>\<open>fetchQuotaForProvider\<close> rejects with it.
\<close>

theorem google_refresh_throw_evaluation:
  "fetchQuotaForProvider google_refresh_world ''google'' = Inl (JsError ''fetch failed'')
   \<and> fetchQuotaForProvider google_badjson_world ''google''
       = Inl (JsError ''Unexpected token < in JSON at position 0'')"
proof -
  have a: "google_refresh_world = offline_world \<lparr>readAuthFile := [(''google'', JObj [(''refresh'', JStr ''1//refresh'')])], fetch := fetch offline_world\<rparr>"
    by (simp add: google_refresh_world_def offline_world_def)
  have "fetchGoogleQuota google_refresh_world = Inl (JsError ''fetch failed'')"
    unfolding fetchGoogleQuota_def a google_sources
    by (simp add: fetchGoogleQuota_of_def googleSourceStep_def sourceAccessToken_def needs_refresh_def
        refreshGoogleAccessToken_def offline_world_def)
  moreover have "fetchGoogleQuota google_badjson_world = Inl (JsError ''Unexpected token < in JSON at position 0'')"
    unfolding fetchGoogleQuota_def google_badjson_world_def google_sources
    by (simp add: fetchGoogleQuota_of_def googleSourceStep_def sourceAccessToken_def needs_refresh_def
        refreshGoogleAccessToken_def offline_world_def response_ok_def)
  ultimately show ?thesis by (simp add: fetchQuotaForProvider_def)
qed

section \<open>Enumerator against fetcher\<close>

text \<open>
  Claim C3 at a failing input: the stored Claude entry is \<^verbatim>\<open>{access: '', token: 'sk-ant-oat'}\<close>.
  The enumerator tests \<^verbatim>\<open>access || token\<close> and lists \<^verbatim>\<open>claude\<close>; the fetcher takes
  \<^verbatim>\<open>access ?? token\<close>, which is the empty string, and short-circuits to
  \<^verbatim>\<open>configured:false\<close>.
\<close>

theorem enumerator_fetcher_disagree_evaluation:
  "''claude'' \<in> set (listConfiguredQuotaProviders empty_access_world)
   \<and> fetchClaudeQuota empty_access_world =
       Inr \<lparr>providerId = ''claude'', providerName = ''Claude'', ok = False, configured = False,
            usage = None, error = Some ''Not configured'', fetchedAt = 1700000000000\<rparr>"
  by (simp add: listConfiguredQuotaProviders_def fetchClaudeQuota_def empty_access_world_def
        offline_world_def normalizeAuthEntry_def opt_prop_def nullish_or_def truthy_or_def
        buildResult_def Let_def)

section \<open>Google: the result against the merged models\<close>

lemma obj_set_not_Nil: "obj_set ms k v \<noteq> []"
  by (cases ms) (auto split: if_splits)

lemma assign_all_Nil_iff: "assign_all entries ms = [] \<longleftrightarrow> ms = [] \<and> entries = []"
  unfolding assign_all_def
  by (induction entries arbitrary: ms) (auto simp: obj_set_not_Nil)

lemma assign_all_append: "assign_all (xs @ ys) ms = assign_all ys (assign_all xs ms)"
  by (simp add: assign_all_def)

lemma assign_all_Nil: "assign_all [] ms = ms"
  by (simp add: assign_all_def)

lemma assign_all_Cons: "assign_all (x # xs) ms = assign_all xs (obj_set ms (fst x) (snd x))"
  by (simp add: assign_all_def)

lemma mergeBuckets_entries:
  "mergeBuckets W source buckets (ms, merged) =
     (assign_all (List.map_filter (bucketEntry W source) buckets) ms,
      merged \<or> List.map_filter (bucketEntry W source) buckets \<noteq> [])"
  unfolding mergeBuckets_def assign_all_def
  by (induction buckets arbitrary: ms merged) (auto simp add: List.map_filter_simps split: option.splits)

lemma mergeModels_entries:
  "mergeModels W source entries (ms, merged) =
     map_exn (\<lambda>es. (assign_all es ms, merged \<or> es \<noteq> []))
       (collect (map (modelEntry W source) entries))"
proof (induction entries arbitrary: ms merged)
  case Nil
  then show ?case by (simp add: map_exn_def assign_all_def)
next
  case (Cons e entries)
  show ?case
  proof (cases "modelEntry W source e")
    case (Inl ex)
    then show ?thesis by (simp add: map_exn_def)
  next
    case (Inr ne)
    obtain name entry where ne: "ne = (name, entry)" by (cases ne)
    show ?thesis
      using Inr ne Cons.IH [of "obj_set ms name entry" True]
      by (cases "collect (map (modelEntry W source) entries)")
         (simp_all add: map_exn_def assign_all_Cons)
  qed
qed

lemma mergeSource_entries:
  "mergeSource W source token ms =
     map_exn (\<lambda>es. (assign_all es ms, es \<noteq> [])) (sourceEntries W source token)"
proof -
  let ?project = "nullish_or (projectId source) (JStr DEFAULT_PROJECT_ID)"
  let ?payload = "fetchGoogleModels W token ?project"
  let ?bs = "if sourceId source = ''gemini''
             then List.map_filter (bucketEntry W source)
                    (case opt_prop (fetchGoogleQuotaBuckets W token ?project) ''buckets'' of
                       JArr bs \<Rightarrow> bs
                     | _ \<Rightarrow> [])
             else []"
  let ?ms = "if truthy ?payload
             then collect (map (modelEntry W source)
                             (js_entries (nullish_or (get_prop ?payload ''models'') (JObj []))))
             else Inr []"
  have st1: "(if sourceId source = ''gemini''
              then (let quotaPayload = fetchGoogleQuotaBuckets W token ?project;
                        buckets = (case opt_prop quotaPayload ''buckets'' of
                                     JArr bs \<Rightarrow> bs
                                   | _ \<Rightarrow> [])
                    in mergeBuckets W source buckets (ms, False))
              else (ms, False)) = (assign_all ?bs ms, ?bs \<noteq> [])"
    by (simp add: Let_def mergeBuckets_entries assign_all_def)
  have l: "mergeSource W source token ms =
             (if truthy ?payload
              then mergeModels W source
                     (js_entries (nullish_or (get_prop ?payload ''models'') (JObj [])))
                     (assign_all ?bs ms, ?bs \<noteq> [])
              else Inr (assign_all ?bs ms, ?bs \<noteq> []))"
    unfolding mergeSource_def Let_def st1 [unfolded Let_def] ..
  have r: "sourceEntries W source token = map_exn ((@) ?bs) ?ms"
    unfolding sourceEntries_def Let_def ..
  show ?thesis
    unfolding l r mergeModels_entries
    by (cases ?ms) (auto simp add: map_exn_def assign_all_append assign_all_Nil split: if_splits)
qed

lemma googleSourceStep_Inr:
  "googleSourceStep W source (ms, errs) = Inr (ms', errs') \<Longrightarrow>
     (ms' = [] \<longleftrightarrow> ms = [] \<and> sourceYield W source = [])"
  by (auto simp: googleSourceStep_def sourceYield_def Let_def mergeSource_entries map_exn_def
        assign_all_Nil_iff split: sum.splits option.splits if_splits)

lemma googleSourceStep_Inl:
  "googleSourceStep W source st = Inl e \<Longrightarrow>
     sourceAccessToken W source = Inl e
     \<or> (\<exists>token. sourceAccessToken W source = Inr (Some token) \<and> truthy token
           \<and> sourceEntries W source token = Inl e)"
  by (auto simp: googleSourceStep_def Let_def mergeSource_entries map_exn_def
        split: sum.splits option.splits if_splits)

lemma googleSources_Inl:
  "googleSources W sources st = Inl e \<Longrightarrow>
     \<exists>source \<in> set sources.
       sourceAccessToken W source = Inl e
       \<or> (\<exists>token. sourceAccessToken W source = Inr (Some token) \<and> truthy token
             \<and> sourceEntries W source token = Inl e)"
proof (induction sources arbitrary: st)
  case Nil
  then show ?case by simp
next
  case (Cons source sources)
  show ?case
  proof (cases "googleSourceStep W source st")
    case (Inl e')
    with Cons.prems have "e' = e" by simp
    with Inl googleSourceStep_Inl [of W source st e] show ?thesis by simp
  next
    case (Inr st')
    with Cons.prems have "googleSources W sources st' = Inl e" by simp
    from Cons.IH [OF this] show ?thesis by simp
  qed
qed

lemma googleSources_Inr:
  "googleSources W sources (ms, errs) = Inr (ms', errs') \<Longrightarrow>
     (ms' = [] \<longleftrightarrow> ms = [] \<and> (\<forall>source \<in> set sources. sourceYield W source = []))"
proof (induction sources arbitrary: ms errs)
  case Nil
  then show ?case by simp
next
  case (Cons source sources)
  from Cons.prems obtain ms1 errs1 where
    step: "googleSourceStep W source (ms, errs) = Inr (ms1, errs1)"
    and rest: "googleSources W sources (ms1, errs1) = Inr (ms', errs')"
    by (auto split: sum.splits)
  from googleSourceStep_Inr [OF step] Cons.IH [OF rest] show ?case by auto
qed

text \<open>
  What holds of the Google fetcher with at least one resolved source. A result it returns is
  \<^verbatim>\<open>configured:true\<close>, and \<^verbatim>\<open>ok:false\<close> if and only if no source obtained a model entry.
  It returns no result when the refresh exchange of a source throws, or when building an
  entry of a model listing does.
\<close>

lemma fetchGoogleQuota_returned_ok_iff_models:
  assumes "resolveGoogleAuthSources W \<noteq> []"
  shows "case fetchGoogleQuota W of
           Inl e \<Rightarrow>
             \<exists>source \<in> set (resolveGoogleAuthSources W).
               sourceAccessToken W source = Inl e
               \<or> (\<exists>token. sourceAccessToken W source = Inr (Some token) \<and> truthy token
                     \<and> sourceEntries W source token = Inl e)
         | Inr r \<Rightarrow>
             configured r
             \<and> (ok r = False \<longleftrightarrow>
                  (\<forall>source \<in> set (resolveGoogleAuthSources W). sourceYield W source = []))"
proof (cases "googleSources W (resolveGoogleAuthSources W) ([], [])")
  case (Inl e)
  with assms googleSources_Inl [OF Inl] show ?thesis
    by (simp add: fetchGoogleQuota_def fetchGoogleQuota_of_def)
next
  case (Inr st)
  obtain ms errs where st: "st = (ms, errs)" by (cases st)
  from googleSources_Inr [of W "resolveGoogleAuthSources W" "[]" "[]" ms errs] Inr st
  have "ms = [] \<longleftrightarrow> (\<forall>source \<in> set (resolveGoogleAuthSources W). sourceYield W source = [])"
    by simp
  with assms Inr st show ?thesis
    by (auto simp add: fetchGoogleQuota_def fetchGoogleQuota_of_def buildResult_def)
qed

text \<open>
  A partial failure that the fetcher does absorb: the Gemini source has an expired access
  token and no refresh token, which the fetcher records, and the Antigravity source
  contributes one model. The result is \<^verbatim>\<open>ok:true\<close>.
\<close>

lemma two_sources:
  "resolveGoogleAuthSources two_source_world = [stale_gemini_source, antigravity_source]"
  by (simp add: resolveGoogleAuthSources_def resolveGeminiCliAuth_def resolveAntigravityAuth_def
        ANTIGRAVITY_ACCOUNTS_PATHS_def two_source_world_def offline_world_def normalizeAuthEntry_def
        asObject_def nullish_or_def opt_prop_def asNonEmptyString_def
        js_trim_def is_space1_def is_space2_def is_space3_def
        parseGoogleRefreshToken_def nth_or_empty_def toTimestamp_def Let_def arr_get_def
        stale_gemini_source_def antigravity_source_def)

lemma stale_gemini_token: "sourceAccessToken two_source_world stale_gemini_source = Inr None"
  by (simp add: sourceAccessToken_def needs_refresh_def stale_gemini_source_def two_source_world_def
        offline_world_def)

lemma antigravity_token:
  "sourceAccessToken two_source_world antigravity_source = Inr (Some (JStr ''at-a''))"
  by (simp add: sourceAccessToken_def needs_refresh_def antigravity_source_def two_source_world_def
        offline_world_def refreshGoogleAccessToken_def response_ok_def opt_prop_def)

lemma antigravity_models:
  "fetchGoogleModels two_source_world (JStr ''at-a'') (JStr DEFAULT_PROJECT_ID) =
     JObj [(''models'',
            JObj [(''gemini-3-pro'',
                   JObj [(''quotaInfo'', JObj [(''remainingFraction'', JNum (Fin (1 / 2)))])])])]"
  by (simp add: fetchGoogleModels_def GOOGLE_ENDPOINTS_def models_request_def two_source_world_def
        offline_world_def response_ok_def)

lemma antigravity_entries:
  "sourceEntries two_source_world antigravity_source (JStr ''at-a'') =
     Inr [(''antigravity/gemini-3-pro'', \<lparr>mw_windows = [(''5h'', half_used_window)]\<rparr>)]"
proof -
  have p: "projectId antigravity_source = JNull" "sourceId antigravity_source = ''antigravity''"
    by (simp_all add: antigravity_source_def)
  show ?thesis
    by (simp add: sourceEntries_def p nullish_or_def antigravity_models Let_def modelEntry_def
        map_exn_def opt_prop_def scoped_name_def startsWith_def used_of_remaining_def
        model_entry_def resolveGoogleWindow_def GOOGLE_FIVE_HOUR_WINDOW_SECONDS_def
        toUsageWindow_def calculateResetAfterSeconds_def js_sub_def half_used_window_def)
qed

lemma two_source_partial_success:
  "sourceYield two_source_world stale_gemini_source = []
   \<and> sourceYield two_source_world antigravity_source =
       [(''antigravity/gemini-3-pro'', \<lparr>mw_windows = [(''5h'', half_used_window)]\<rparr>)]
   \<and> fetchGoogleQuota two_source_world =
       Inr \<lparr>providerId = ''google'', providerName = ''Google'', ok = True, configured = True,
            usage = Some \<lparr>windows = [],
                           models = Some [(''antigravity/gemini-3-pro'',
                                           \<lparr>mw_windows = [(''5h'', half_used_window)]\<rparr>)]\<rparr>,
            error = None, fetchedAt = 1700000000000\<rparr>"
proof -
  have now: "dateNow two_source_world = 1700000000000"
    by (simp add: two_source_world_def offline_world_def)
  have run: "fetchGoogleQuota two_source_world =
       Inr \<lparr>providerId = ''google'', providerName = ''Google'', ok = True, configured = True,
            usage = Some \<lparr>windows = [],
                           models = Some [(''antigravity/gemini-3-pro'',
                                           \<lparr>mw_windows = [(''5h'', half_used_window)]\<rparr>)]\<rparr>,
            error = None, fetchedAt = 1700000000000\<rparr>"
    by (simp add: fetchGoogleQuota_def two_sources fetchGoogleQuota_of_def googleSourceStep_def
          stale_gemini_token antigravity_token mergeSource_entries antigravity_entries
          map_exn_def assign_all_def buildResult_def now)
  from run show ?thesis
    by (simp add: sourceYield_def stale_gemini_token antigravity_token antigravity_entries)
qed

lemma gemini_then_throw_sources:
  "resolveGoogleAuthSources gemini_then_throw_world = [live_gemini_source, antigravity_source]"
  by (simp add: resolveGoogleAuthSources_def resolveGeminiCliAuth_def resolveAntigravityAuth_def
        ANTIGRAVITY_ACCOUNTS_PATHS_def gemini_then_throw_world_def offline_world_def
        normalizeAuthEntry_def asObject_def nullish_or_def opt_prop_def asNonEmptyString_def
        js_trim_def is_space1_def is_space2_def is_space3_def
        parseGoogleRefreshToken_def nth_or_empty_def toTimestamp_def Let_def arr_get_def
        live_gemini_source_def antigravity_source_def)

lemma live_gemini_token:
  "sourceAccessToken gemini_then_throw_world live_gemini_source = Inr (Some (JStr ''ya29.live''))"
  by (simp add: sourceAccessToken_def needs_refresh_def live_gemini_source_def)

lemma live_gemini_buckets:
  "fetchGoogleQuotaBuckets gemini_then_throw_world (JStr ''ya29.live'') (JStr DEFAULT_PROJECT_ID)
     = JNull"
  by (simp add: fetchGoogleQuotaBuckets_def GOOGLE_PRIMARY_ENDPOINT_def gemini_then_throw_world_def
        offline_world_def)

lemma live_gemini_models:
  "fetchGoogleModels gemini_then_throw_world (JStr ''ya29.live'') (JStr DEFAULT_PROJECT_ID) =
     JObj [(''models'',
            JObj [(''gemini-3-pro'',
                   JObj [(''quotaInfo'', JObj [(''remainingFraction'', JNum (Fin (1 / 2)))])])])]"
  by (simp add: fetchGoogleModels_def GOOGLE_ENDPOINTS_def models_request_def
        gemini_then_throw_world_def offline_world_def response_ok_def)

lemma live_gemini_entries:
  "sourceEntries gemini_then_throw_world live_gemini_source (JStr ''ya29.live'') =
     Inr [(''gemini/gemini-3-pro'', \<lparr>mw_windows = [(''daily'', half_used_daily_window)]\<rparr>)]"
proof -
  have p: "projectId live_gemini_source = JNull" "sourceId live_gemini_source = ''gemini''"
    by (simp_all add: live_gemini_source_def)
  show ?thesis
    by (simp add: sourceEntries_def p nullish_or_def live_gemini_buckets live_gemini_models
        Let_def modelEntry_def List.map_filter_simps map_exn_def
        opt_prop_def scoped_name_def startsWith_def used_of_remaining_def model_entry_def
        resolveGoogleWindow_def GOOGLE_DAILY_WINDOW_SECONDS_def toUsageWindow_def
        calculateResetAfterSeconds_def js_sub_def half_used_daily_window_def)
qed

lemma throwing_antigravity_token:
  "sourceAccessToken gemini_then_throw_world antigravity_source = Inl (JsError ''fetch failed'')"
  by (simp add: sourceAccessToken_def needs_refresh_def antigravity_source_def
        refreshGoogleAccessToken_def gemini_then_throw_world_def offline_world_def)

text \<open>
  Claim C5 at a failing input: two sources are resolved. The Gemini source has a live access
  token and its model listing gives one model entry; the Antigravity source has a refresh
  token and no access token, and its refresh exchange throws. One source has contributed a
  model entry, and the fetcher does not return \<^verbatim>\<open>ok:true\<close>: it returns no result at all,
  the exception of the refresh exchange, which no \<^verbatim>\<open>try\<close> surrounds, leaves it.
\<close>

theorem google_partial_success_rejects_evaluation:
  "resolveGoogleAuthSources gemini_then_throw_world = [live_gemini_source, antigravity_source]
   \<and> sourceYield gemini_then_throw_world live_gemini_source =
       [(''gemini/gemini-3-pro'', \<lparr>mw_windows = [(''daily'', half_used_daily_window)]\<rparr>)]
   \<and> fetchGoogleQuota gemini_then_throw_world = Inl (JsError ''fetch failed'')"
proof -
  have y: "sourceYield gemini_then_throw_world live_gemini_source =
       [(''gemini/gemini-3-pro'', \<lparr>mw_windows = [(''daily'', half_used_daily_window)]\<rparr>)]"
    by (simp add: sourceYield_def live_gemini_token live_gemini_entries)
  have f: "fetchGoogleQuota gemini_then_throw_world = Inl (JsError ''fetch failed'')"
    by (simp add: fetchGoogleQuota_def gemini_then_throw_sources fetchGoogleQuota_of_def
          googleSourceStep_def live_gemini_token mergeSource_entries live_gemini_entries
          map_exn_def throwing_antigravity_token)
  from gemini_then_throw_sources y f show ?thesis by simp
qed

section \<open>Which calls resolve, and with which result\<close>

text \<open>
  Every fetcher other than the Google one resolves, whatever its \<^verbatim>\<open>try\<close> block throws, to a
  result that carries its provider identifier and whose error field, when present, is a
  non-empty string on a failed result. The Google fetcher does the same unless the refresh
  exchange of one of its sources throws, or building an entry of a model listing does.
\<close>

lemma try_Inl:
  "\<forall>r. (Inl e :: js_exn + provider_result) = Inr r \<longrightarrow> providerId r = p \<and> error_consistent r"
  by simp

lemma try_failure:
  "\<forall>r. (Inr (buildResult W p n False c None (Some m)) :: js_exn + provider_result) = Inr r
        \<longrightarrow> providerId r = p \<and> error_consistent r"
  by (simp add: buildResult_def error_consistent_def)

lemma try_success:
  "\<forall>r. (Inr (buildResult W p n True True (Some u) None) :: js_exn + provider_result) = Inr r
        \<longrightarrow> providerId r = p \<and> error_consistent r"
  by (simp add: buildResult_def error_consistent_def)

lemma try_sum:
  "(\<And>e. \<forall>r. f e = (Inr r :: js_exn + provider_result) \<longrightarrow> P r) \<Longrightarrow>
   (\<And>x. \<forall>r. g x = Inr r \<longrightarrow> P r) \<Longrightarrow>
   \<forall>r. (case s of Inl e \<Rightarrow> f e | Inr x \<Rightarrow> g x) = Inr r \<longrightarrow> P r"
  by (cases s) simp_all

lemma try_fetch:
  "(\<And>e. \<forall>r. f e = (Inr r :: js_exn + provider_result) \<longrightarrow> P r) \<Longrightarrow>
   (\<And>status content. \<forall>r. g status content = Inr r \<longrightarrow> P r) \<Longrightarrow>
   \<forall>r. (case out of FetchThrows e \<Rightarrow> f e | Response status content \<Rightarrow> g status content) = Inr r
        \<longrightarrow> P r"
  by (cases out) simp_all

lemma try_json:
  "(\<And>e. \<forall>r. f e = (Inr r :: js_exn + provider_result) \<longrightarrow> P r) \<Longrightarrow>
   (\<And>v. \<forall>r. g v = Inr r \<longrightarrow> P r) \<Longrightarrow>
   \<forall>r. (case content of JsonThrows e \<Rightarrow> f e | JsonValue v \<Rightarrow> g v) = Inr r \<longrightarrow> P r"
  by (cases content) simp_all

lemma try_if:
  "\<forall>r. a = (Inr r :: js_exn + provider_result) \<longrightarrow> P r \<Longrightarrow>
   \<forall>r. b = Inr r \<longrightarrow> P r \<Longrightarrow>
   \<forall>r. (if c then a else b) = Inr r \<longrightarrow> P r"
  by simp

lemmas try_rules = try_Inl try_failure try_success try_sum try_fetch try_json try_if

lemma claudeTry_result:
  "\<forall>r. claudeTry W token = Inr r \<longrightarrow> providerId r = ''claude'' \<and> error_consistent r"
  unfolding claudeTry_def Let_def by (intro try_rules)

lemma codexTry_result:
  "\<forall>r. codexTry W token accountId = Inr r \<longrightarrow> providerId r = ''codex'' \<and> error_consistent r"
  unfolding codexTry_def Let_def by (intro try_rules)

lemma copilotTry_result:
  "\<forall>r. copilotTry W token = Inr r \<longrightarrow> providerId r = ''github-copilot'' \<and> error_consistent r"
  unfolding copilotTry_def Let_def by (intro try_rules)

lemma copilotAddonTry_result:
  "\<forall>r. copilotAddonTry W token = Inr r
        \<longrightarrow> providerId r = ''github-copilot-addon'' \<and> error_consistent r"
  unfolding copilotAddonTry_def Let_def by (intro try_rules)

lemma kimiTry_result:
  "\<forall>r. kimiTry W apiKey = Inr r \<longrightarrow> providerId r = ''kimi-for-coding'' \<and> error_consistent r"
  unfolding kimiTry_def Let_def by (intro try_rules)

lemma nanoGptTry_result:
  "\<forall>r. nanoGptTry W apiKey = Inr r \<longrightarrow> providerId r = ''nano-gpt'' \<and> error_consistent r"
  unfolding nanoGptTry_def Let_def by (intro try_rules)

lemma openRouterTry_result:
  "\<forall>r. openRouterTry W apiKey = Inr r \<longrightarrow> providerId r = ''openrouter'' \<and> error_consistent r"
  unfolding openRouterTry_def Let_def by (intro try_rules)

lemma zaiTry_result:
  "\<forall>r. zaiTry W apiKey = Inr r \<longrightarrow> providerId r = ''zai-coding-plan'' \<and> error_consistent r"
  unfolding zaiTry_def Let_def by (intro try_rules)

lemma catch_resolves:
  "\<forall>r. t = Inr r \<longrightarrow> providerId r = p \<and> error_consistent r \<Longrightarrow>
   \<exists>r. (case t of
           Inl e \<Rightarrow> Inr (buildResult W p n False True None (Some (catch_message e)))
         | Inr r \<Rightarrow> Inr r) = (Inr r :: js_exn + provider_result)
        \<and> providerId r = p \<and> error_consistent r"
  by (cases t) (simp_all add: buildResult_def error_consistent_def)

lemma if_resolves:
  "\<exists>r. a = (Inr r :: js_exn + provider_result) \<and> providerId r = p \<and> error_consistent r \<Longrightarrow>
   \<exists>r. b = (Inr r :: js_exn + provider_result) \<and> providerId r = p \<and> error_consistent r \<Longrightarrow>
   \<exists>r. (if c then a else b) = Inr r \<and> providerId r = p \<and> error_consistent r"
  by simp

lemma failure_resolves:
  "\<exists>r. Inr (buildResult W p n False c None (Some m)) = (Inr r :: js_exn + provider_result)
       \<and> providerId r = p \<and> error_consistent r"
  by (simp add: buildResult_def error_consistent_def)

lemma fetchClaudeQuota_resolves:
  "\<exists>r. fetchClaudeQuota W = Inr r \<and> providerId r = ''claude'' \<and> error_consistent r"
  unfolding fetchClaudeQuota_def Let_def
  by (rule if_resolves, rule failure_resolves, rule catch_resolves, rule claudeTry_result)

lemma fetchCodexQuota_resolves:
  "\<exists>r. fetchCodexQuota W = Inr r \<and> providerId r = ''codex'' \<and> error_consistent r"
  unfolding fetchCodexQuota_def Let_def
  by (rule if_resolves, rule failure_resolves, rule catch_resolves, rule codexTry_result)

lemma fetchCopilotQuota_resolves:
  "\<exists>r. fetchCopilotQuota W = Inr r \<and> providerId r = ''github-copilot'' \<and> error_consistent r"
  unfolding fetchCopilotQuota_def Let_def
  by (rule if_resolves, rule failure_resolves, rule catch_resolves, rule copilotTry_result)

lemma fetchCopilotAddonQuota_resolves:
  "\<exists>r. fetchCopilotAddonQuota W = Inr r \<and> providerId r = ''github-copilot-addon''
       \<and> error_consistent r"
  unfolding fetchCopilotAddonQuota_def Let_def
  by (rule if_resolves, rule failure_resolves, rule catch_resolves, rule copilotAddonTry_result)

lemma fetchKimiQuota_resolves:
  "\<exists>r. fetchKimiQuota W = Inr r \<and> providerId r = ''kimi-for-coding'' \<and> error_consistent r"
  unfolding fetchKimiQuota_def Let_def
  by (rule if_resolves, rule failure_resolves, rule catch_resolves, rule kimiTry_result)

lemma fetchNanoGptQuota_resolves:
  "\<exists>r. fetchNanoGptQuota W = Inr r \<and> providerId r = ''nano-gpt'' \<and> error_consistent r"
  unfolding fetchNanoGptQuota_def Let_def
  by (rule if_resolves, rule failure_resolves, rule catch_resolves, rule nanoGptTry_result)

lemma fetchOpenRouterQuota_resolves:
  "\<exists>r. fetchOpenRouterQuota W = Inr r \<and> providerId r = ''openrouter'' \<and> error_consistent r"
  unfolding fetchOpenRouterQuota_def Let_def
  by (rule if_resolves, rule failure_resolves, rule catch_resolves, rule openRouterTry_result)

lemma fetchZaiQuota_resolves:
  "\<exists>r. fetchZaiQuota W = Inr r \<and> providerId r = ''zai-coding-plan'' \<and> error_consistent r"
  unfolding fetchZaiQuota_def zaiApiKey_def Let_def
  by (rule if_resolves, rule failure_resolves, rule catch_resolves, rule zaiTry_result)

lemma case_resolves:
  "\<exists>r. a = (Inr r :: js_exn + provider_result) \<and> providerId r = k \<and> error_consistent r \<Longrightarrow>
   (pid \<noteq> k \<Longrightarrow> \<exists>r. b = (Inr r :: js_exn + provider_result) \<and> providerId r = pid \<and> error_consistent r) \<Longrightarrow>
   \<exists>r. (if pid = k then a else b) = Inr r \<and> providerId r = pid \<and> error_consistent r"
  by auto

lemma case_skipped:
  "pid \<noteq> k \<Longrightarrow>
   \<exists>r. b = (Inr r :: js_exn + provider_result) \<and> providerId r = pid \<and> error_consistent r \<Longrightarrow>
   \<exists>r. (if pid = k then a else b) = Inr r \<and> providerId r = pid \<and> error_consistent r"
  by auto

lemma fetchQuotaForProvider_resolves_unless_google:
  assumes "pid \<noteq> ''google''"
  shows "\<exists>r. fetchQuotaForProvider W pid = Inr r \<and> providerId r = pid \<and> error_consistent r"
  unfolding fetchQuotaForProvider_def
  by (rule case_resolves, rule fetchClaudeQuota_resolves,
      rule case_resolves, rule fetchCodexQuota_resolves,
      rule case_resolves, rule fetchCopilotQuota_resolves,
      rule case_resolves, rule fetchCopilotAddonQuota_resolves,
      rule case_skipped, rule assms,
      rule case_resolves, rule fetchKimiQuota_resolves,
      rule case_resolves, rule fetchNanoGptQuota_resolves,
      rule case_resolves, rule fetchOpenRouterQuota_resolves,
      rule case_resolves, rule fetchZaiQuota_resolves,
      rule failure_resolves)

lemma googleSourceStep_errors:
  "googleSourceStep W source (ms, errs) = Inr (ms', errs') \<Longrightarrow>
   \<forall>e \<in> set errs. e \<noteq> [] \<Longrightarrow> \<forall>e \<in> set errs'. e \<noteq> []"
  by (auto simp: googleSourceStep_def Let_def split: sum.splits option.splits if_splits)

lemma googleSources_errors:
  "googleSources W sources (ms, errs) = Inr (ms', errs') \<Longrightarrow>
   \<forall>e \<in> set errs. e \<noteq> [] \<Longrightarrow> \<forall>e \<in> set errs'. e \<noteq> []"
proof (induction sources arbitrary: ms errs)
  case Nil
  then show ?case by simp
next
  case (Cons source sources)
  from Cons.prems(1) obtain ms1 errs1 where
    step: "googleSourceStep W source (ms, errs) = Inr (ms1, errs1)"
    and rest: "googleSources W sources (ms1, errs1) = Inr (ms', errs')"
    by (auto split: sum.splits)
  from googleSourceStep_errors [OF step Cons.prems(2)] Cons.IH [OF rest] show ?case by blast
qed

lemma fetchGoogleQuota_resolves_or_throws:
  "(\<exists>r. fetchGoogleQuota W = Inr r \<and> providerId r = ''google'' \<and> error_consistent r)
   \<or> (\<exists>e. fetchGoogleQuota W = Inl e
          \<and> (\<exists>source \<in> set (resolveGoogleAuthSources W).
                sourceAccessToken W source = Inl e
                \<or> (\<exists>token. sourceAccessToken W source = Inr (Some token) \<and> truthy token
                      \<and> sourceEntries W source token = Inl e)))"
proof (cases "googleSources W (resolveGoogleAuthSources W) ([], [])")
  case (Inl e)
  from googleSources_Inl [OF Inl] Inl show ?thesis
    by (auto simp add: fetchGoogleQuota_def fetchGoogleQuota_of_def buildResult_def)
next
  case (Inr st)
  obtain ms errs where st: "st = (ms, errs)" by (cases st)
  from googleSources_errors [of W "resolveGoogleAuthSources W" "[]" "[]" ms errs] Inr st
  have "\<forall>e \<in> set errs. e \<noteq> []" by simp
  with Inr st show ?thesis
    by (cases errs)
       (auto simp add: fetchGoogleQuota_def fetchGoogleQuota_of_def buildResult_def
          error_consistent_def)
qed

text \<open>
  The two credential tests side by side: whenever the fetchers' \<^verbatim>\<open>a ?? b\<close> is truthy, so
  is the enumerator's \<^verbatim>\<open>a || b\<close>; the converse fails when \<^verbatim>\<open>a\<close> is the empty string.
\<close>

lemma nullish_or_truthy_imp_truthy_or: "truthy (nullish_or a b) \<Longrightarrow> truthy (truthy_or a b)"
  by (cases a) (auto simp: nullish_or_def truthy_or_def)

lemma truthy_or_not_nullish_or:
  "truthy (truthy_or (JStr []) (JStr ''t'')) \<and> \<not> truthy (nullish_or (JStr []) (JStr ''t''))"
  by (simp add: nullish_or_def truthy_or_def)

end
